theory Spec2Isabelle
  imports Main
begin

section \<open>Python values, exceptions and string operations\<close>

text \<open>
  The repository is Python. Text and bytes are both modelled as \<open>string\<close> (a list of
  8-bit characters): a Python \<open>str\<close> is represented by its UTF-8 bytes, so that
  \<open>s.encode("utf-8")\<close> and \<open>b.decode("utf-8")\<close> are the identity of the model.
  A raised exception is the \<open>Inl\<close> of a sum; \<open>Inr\<close> is a normal return.
\<close>

datatype exn =
    KeyError
  | IndexError
  | TypeError
  | AttributeError
  | BinasciiError
  | ValueError
  | WebfingerException
  | RequestException
  | HTTPError
  | DoesNotExist
  | MultipleObjectsReturned
  | IntegrityError
  | Resolver404
  | Http404
  | ParentDoesNotExist
  | RecursionError

definition ascii_lowercase :: string where
  "ascii_lowercase = ''abcdefghijklmnopqrstuvwxyz''"

definition ascii_uppercase :: string where
  "ascii_uppercase = ''ABCDEFGHIJKLMNOPQRSTUVWXYZ''"

text \<open>\<open>str.upper\<close> and \<open>str.lower\<close>, on ASCII letters; every other byte is kept.\<close>

definition upper_chr :: "char \<Rightarrow> char" where
  "upper_chr c = (case map_of (zip ascii_lowercase ascii_uppercase) c of None \<Rightarrow> c | Some u \<Rightarrow> u)"

definition lower_chr :: "char \<Rightarrow> char" where
  "lower_chr c = (case map_of (zip ascii_uppercase ascii_lowercase) c of None \<Rightarrow> c | Some l \<Rightarrow> l)"

definition str_upper :: "string \<Rightarrow> string" where
  "str_upper s = map upper_chr s"

definition str_lower :: "string \<Rightarrow> string" where
  "str_lower s = map lower_chr s"

text \<open>\<open>s.split(c)\<close> for a one-character separator: one more part than separators.\<close>

fun str_split :: "char \<Rightarrow> string \<Rightarrow> string list" where
  "str_split c [] = [[]]"
| "str_split c (x # xs) =
     (if x = c then [] # str_split c xs
      else (case str_split c xs of [] \<Rightarrow> [[x]] | w # ws \<Rightarrow> (x # w) # ws))"

text \<open>\<open>s.split(sep, 1)\<close>: cut at the first occurrence of \<open>sep\<close>, if there is one.\<close>

fun str_split1 :: "string \<Rightarrow> string \<Rightarrow> string list" where
  "str_split1 sep [] = [[]]"
| "str_split1 sep (x # xs) =
     (if take (length sep) (x # xs) = sep then [[], drop (length sep) (x # xs)]
      else (case str_split1 sep xs of [a, b] \<Rightarrow> [x # a, b] | _ \<Rightarrow> [x # xs]))"

text \<open>\<open>s.replace(c, '')\<close> for a one-character \<open>c\<close>.\<close>

definition str_remove :: "char \<Rightarrow> string \<Rightarrow> string" where
  "str_remove c s = filter (\<lambda>x. x \<noteq> c) s"

text \<open>\<open>sep.join(parts)\<close>.\<close>

fun str_join :: "string \<Rightarrow> string list \<Rightarrow> string" where
  "str_join sep [] = []"
| "str_join sep [p] = p"
| "str_join sep (p # q # ps) = p @ sep @ str_join sep (q # ps)"

section \<open>Library primitives of the signing code\<close>

text \<open>
  \<open>signed_requests.py\<close> calls \<open>hashlib\<close>, \<open>base64\<close>, \<open>cryptography\<close> and
  \<open>urllib.parse\<close>. They are not code of the repository; the model takes them as the
  fields of a record of functions. \<open>b64decode\<close> is \<open>None\<close> where
  \<open>base64.standard_b64decode\<close> raises \<open>binascii.Error\<close>; \<open>pkcs1v15_sign\<close> is
  \<open>load_pem_private_key(k).sign(m, PKCS1v15(), SHA256())\<close> and is \<open>Inl\<close> where the
  library raises; \<open>rsa_verify k s m\<close> and \<open>ed25519_verify k s m\<close> are \<open>False\<close>
  where \<open>verify\<close> raises \<open>InvalidSignature\<close>.
\<close>

record lib =
  sha256 :: "string \<Rightarrow> string"
  b64encode :: "string \<Rightarrow> string"
  b64decode :: "string \<Rightarrow> string option"
  pkcs1v15_sign :: "string \<Rightarrow> string \<Rightarrow> exn + string"
  rsa_verify :: "string \<Rightarrow> string \<Rightarrow> string \<Rightarrow> bool"
  ed25519_verify :: "string \<Rightarrow> string \<Rightarrow> string \<Rightarrow> bool"
  url_netloc :: "string \<Rightarrow> string"
  url_path :: "string \<Rightarrow> string"

section \<open>signed\_requests.py\<close>

text \<open>\<open>sign_message(private_key, message)\<close>.\<close>

definition sign_message :: "lib \<Rightarrow> string \<Rightarrow> string \<Rightarrow> exn + string" where
  "sign_message L private_key message =
     (case pkcs1v15_sign L private_key message of
        Inl e \<Rightarrow> Inl e
      | Inr s \<Rightarrow> Inr (b64encode L s))"

text \<open>Class \<open>HttpSignature\<close>: its state is the list \<open>self.fields\<close>.\<close>

type_synonym http_signature = "(string \<times> string) list"

definition HttpSignature :: http_signature where
  "HttpSignature = []"

definition with_field :: "http_signature \<Rightarrow> string \<Rightarrow> string \<Rightarrow> http_signature" where
  "with_field self_fields field_name field_value = self_fields @ [(field_name, field_value)]"

definition build_message :: "http_signature \<Rightarrow> string" where
  "build_message self_fields =
     str_join [CHR 0x0A] (map (\<lambda>(name, v). name @ '': '' @ v) self_fields)"

definition HttpSignature_build_signature ::
  "lib \<Rightarrow> http_signature \<Rightarrow> string \<Rightarrow> string \<Rightarrow> exn + string" where
  \<open>HttpSignature_build_signature L self_fields key_id private_key =
     (let message = build_message self_fields in
      case sign_message L private_key message of
        Inl e \<Rightarrow> Inl e
      | Inr signature_string \<Rightarrow>
          (let headers = str_join '' '' (map fst self_fields);
               signature_parts =
                 [''keyId="'' @ key_id @ ''"'',
                  ''algorithm="rsa-sha256"'',
                  ''headers="'' @ headers @ ''"'',
                  ''signature="'' @ signature_string @ ''"'']
           in Inr (str_join '','' signature_parts)))\<close>

text \<open>
  \<open>content_digest_sha256(content)\<close>. The argument is \<open>None\<close> for Python's \<open>None\<close>,
  on which \<open>hashlib.sha256\<close> raises \<open>TypeError\<close>.
\<close>

definition content_digest_sha256 :: "lib \<Rightarrow> string option \<Rightarrow> exn + string" where
  "content_digest_sha256 L content =
     (case content of
        None \<Rightarrow> Inl TypeError
      | Some c \<Rightarrow> Inr (''SHA-256='' @ b64encode L (sha256 L c)))"

text \<open>The module-level \<open>build_signature(host, method, target)\<close>.\<close>

definition build_signature :: "string \<Rightarrow> string \<Rightarrow> string \<Rightarrow> http_signature" where
  "build_signature host method target =
     with_field (with_field HttpSignature ''(request-target)'' (method @ '' '' @ target)) ''host'' host"

text \<open>
  \<open>signed_post(url, private_key, public_key_url, headers=None, body=None)\<close>. The clock
  reading \<open>get_gmt_now()\<close> is the argument \<open>now\<close>. The function ends with
  \<open>requests.post(url, data=body, headers=headers)\<close>; the model returns the request that
  call is given.
\<close>

record request =
  req_url :: string
  req_data :: "string option"
  req_headers :: "string \<rightharpoonup> string"

definition signed_post ::
  "lib \<Rightarrow> string \<Rightarrow> string \<Rightarrow> string \<Rightarrow> string \<Rightarrow> (string \<rightharpoonup> string) option \<Rightarrow> string option
     \<Rightarrow> exn + request" where
  "signed_post L now url private_key public_key_url headers body =
     (let headers = (case headers of None \<Rightarrow> Map.empty | Some h \<Rightarrow> h);
          host = url_netloc L url;
          target = url_path L url;
          accept = ''application/activity+json'';
          content_type = ''application/activity+json'';
          date_header = now
      in case content_digest_sha256 L body of
           Inl e \<Rightarrow> Inl e
         | Inr digest \<Rightarrow>
             (case HttpSignature_build_signature L
                     (with_field
                        (with_field
                           (with_field (build_signature host ''post'' target) ''date'' date_header)
                           ''digest'' digest)
                        ''content-type'' content_type)
                     public_key_url private_key of
                Inl e \<Rightarrow> Inl e
              | Inr signature_header \<Rightarrow>
                  Inr \<lparr>req_url = url, req_data = body,
                       req_headers = headers
                         (''accept'' \<mapsto> accept,
                          ''digest'' \<mapsto> digest,
                          ''date'' \<mapsto> date_header,
                          ''host'' \<mapsto> host,
                          ''content-type'' \<mapsto> content_type,
                          ''signature'' \<mapsto> signature_header,
                          ''user-agent'' \<mapsto> ''shimmy's django_activitypub service - unlike mozilla'')\<rparr>))"

text \<open>
  \<open>parse_signature_header(header)\<close>. The dict comprehension reads \<open>x[0]\<close> and
  \<open>x[1]\<close> of every split part, so a part without the separator raises
  \<open>IndexError\<close>; a later part with the same key overwrites an earlier one.
\<close>

fun dict_of_parts :: "string list list \<Rightarrow> (string \<rightharpoonup> string) \<Rightarrow> exn + (string \<rightharpoonup> string)" where
  "dict_of_parts [] parsed = Inr parsed"
| "dict_of_parts (x # xs) parsed =
     (case x of
        k # v # _ \<Rightarrow> dict_of_parts xs (parsed(k \<mapsto> str_remove (CHR 0x22) v))
      | _ \<Rightarrow> Inl IndexError)"

definition parse_signature_header :: "string \<Rightarrow> exn + (string \<rightharpoonup> string)" where
  \<open>parse_signature_header header =
     (let parts = str_split (CHR '','') header;
          headers = map (str_split1 ''="'') parts
      in dict_of_parts headers Map.empty)\<close>

text \<open>
  \<open>ValidateResult\<close>. The \<open>error\<close> string is represented by the case that produced
  it, with the values its f-string interpolates:
  \<^item> \<open>MissingSignatureHeader\<close>: 'Missing signature header'
  \<^item> \<open>DigestMismatch d r\<close>: 'Digest mismatch: \{d\} != \{r\}'
  \<^item> \<open>MissingRequiredFields fs\<close>: 'Missing required signature fields in \{fs\}'
  \<^item> \<open>MissingDigestField\<close>: 'Missing digest field'
  \<^item> \<open>KeyIdMismatch e p\<close>: 'Key ID mismatch: expected(\{e\}) != parsed(\{p\})'
  \<^item> \<open>InvalidSignature\<close>: 'Invalid signature: ...'
  \<^item> \<open>UnsupportedKeyType\<close>: 'Unsupported public key type: ...'
\<close>

datatype fail_reason =
    MissingSignatureHeader
  | DigestMismatch string string
  | MissingRequiredFields "string list"
  | MissingDigestField
  | KeyIdMismatch "string option" string
  | InvalidSignature
  | UnsupportedKeyType

record validate_result =
  success :: bool
  identity :: "string option"
  error :: "fail_reason option"

definition ValidateResult_success :: "string option \<Rightarrow> validate_result" where
  "ValidateResult_success ident = \<lparr>success = True, identity = ident, error = None\<rparr>"

definition ValidateResult_fail :: "fail_reason \<Rightarrow> validate_result" where
  "ValidateResult_fail err = \<lparr>success = False, identity = None, error = Some err\<rparr>"

text \<open>
  \<open>SignatureChecker\<close>: the fields \<open>__init__\<close> sets. \<open>obj.get\<close> gives \<open>None\<close> for an
  absent key; the loaded public key is an RSA key, an Ed25519 key, or a key of another
  type.
\<close>

datatype pubkey = RSAPublicKey string | Ed25519PublicKey string | OtherPublicKey string

record signature_checker =
  controller :: "string option"
  key_id :: "string option"
  public_key :: pubkey

text \<open>The loop of \<open>validate\<close> over the declared fields, in their order.\<close>

fun collect_fields ::
  "lib \<Rightarrow> string \<Rightarrow> string \<Rightarrow> (string \<rightharpoonup> string) \<Rightarrow> string list \<Rightarrow> http_signature
     \<Rightarrow> exn + http_signature" where
  "collect_fields L method url headers [] builder = Inr builder"
| "collect_fields L method url headers (field # rest) builder =
     (if field = ''(request-target)''
      then collect_fields L method url headers rest
             (with_field builder field (str_lower method @ '' '' @ url_path L url))
      else (case headers field of
              None \<Rightarrow> Inl KeyError
            | Some v \<Rightarrow> collect_fields L method url headers rest (with_field builder field v)))"

text \<open>The public-key dispatch that ends \<open>validate\<close>.\<close>

definition verify_signature :: "lib \<Rightarrow> signature_checker \<Rightarrow> string \<Rightarrow> string \<Rightarrow> validate_result" where
  "verify_signature L self signature message =
     (case public_key self of
        RSAPublicKey k \<Rightarrow>
          (if rsa_verify L k signature message then ValidateResult_success (controller self)
           else ValidateResult_fail InvalidSignature)
      | Ed25519PublicKey k \<Rightarrow>
          (if ed25519_verify L k signature message then ValidateResult_success (controller self)
           else ValidateResult_fail InvalidSignature)
      | OtherPublicKey k \<Rightarrow> ValidateResult_fail UnsupportedKeyType)"

text \<open>
  The part of \<open>validate\<close> after the digest check (source lines 156 to 204);
  \<open>digest\<close> is the recomputed digest, or \<open>''''\<close> for a request that is not a POST.
\<close>

definition validate_signature ::
  "lib \<Rightarrow> signature_checker \<Rightarrow> string \<Rightarrow> string \<Rightarrow> (string \<rightharpoonup> string) \<Rightarrow> string
     \<Rightarrow> exn + validate_result" where
  "validate_signature L self method url headers digest =
     (case headers ''signature'' of
        None \<Rightarrow> Inl KeyError
      | Some sig_header \<Rightarrow>
     (case parse_signature_header sig_header of
        Inl e \<Rightarrow> Inl e
      | Inr parsed \<Rightarrow>
     (case parsed ''headers'' of
        None \<Rightarrow> Inl KeyError
      | Some declared \<Rightarrow>
     (let field_list = str_split (CHR '' '') declared in
      if ''(request-target)'' \<notin> set field_list \<or> ''date'' \<notin> set field_list
      then Inr (ValidateResult_fail (MissingRequiredFields field_list))
      else if digest \<noteq> [] \<and> ''digest'' \<notin> set field_list
      then Inr (ValidateResult_fail MissingDigestField)
      else
     (case collect_fields L method url headers field_list HttpSignature of
        Inl e \<Rightarrow> Inl e
      | Inr builder \<Rightarrow>
     (case parsed ''keyId'' of
        None \<Rightarrow> Inl KeyError
      | Some parsed_key_id \<Rightarrow>
      if key_id self \<noteq> Some parsed_key_id
      then Inr (ValidateResult_fail (KeyIdMismatch (key_id self) parsed_key_id))
      else
     (let message = build_message builder in
      case parsed ''signature'' of
        None \<Rightarrow> Inl KeyError
      | Some sig64 \<Rightarrow>
     (case b64decode L sig64 of
        None \<Rightarrow> Inl BinasciiError
      | Some signature \<Rightarrow> Inr (verify_signature L self signature message)))))))))"

text \<open>\<open>SignatureChecker.validate(self, method, url, headers, body)\<close>.\<close>

definition validate ::
  "lib \<Rightarrow> signature_checker \<Rightarrow> string \<Rightarrow> string \<Rightarrow> (string \<rightharpoonup> string) \<Rightarrow> string option
     \<Rightarrow> exn + validate_result" where
  "validate L self method url headers body =
     (if ''signature'' \<notin> dom headers then Inr (ValidateResult_fail MissingSignatureHeader)
      else if str_lower method = ''post''
      then (case content_digest_sha256 L body of
              Inl e \<Rightarrow> Inl e
            | Inr digest \<Rightarrow>
                (case headers ''digest'' of
                   None \<Rightarrow> Inl KeyError
                 | Some req_digest0 \<Rightarrow>
                     (let req_digest = str_upper (take 4 req_digest0) @ drop 4 req_digest0 in
                      if digest \<noteq> req_digest
                      then Inr (ValidateResult_fail (DigestMismatch digest req_digest))
                      else validate_signature L self method url headers digest)))
      else validate_signature L self method url headers [])"

text \<open>
  The fields \<open>signed_post\<close> gives its \<open>HttpSignature\<close> for a body \<open>body\<close>
  (source lines 85 to 89), in the order in which they are signed.
\<close>

definition signed_post_fields :: "lib \<Rightarrow> string \<Rightarrow> string \<Rightarrow> string \<Rightarrow> http_signature" where
  "signed_post_fields L now url body =
     [(''(request-target)'', ''post '' @ url_path L url), (''host'', url_netloc L url), (''date'', now),
      (''digest'', ''SHA-256='' @ b64encode L (sha256 L body)),
      (''content-type'', ''application/activity+json'')]"

section \<open>A sample instance of the library primitives\<close>

text \<open>
  The closed examples below evaluate the definitions on an instance of the primitives
  that is small enough to compute with: the digest of a content is the content, the
  encoding escapes the comma, the double quote and the percent sign, a signature is the
  key followed by the message, and a URL is \<open>https://\<close>, the authority, the path.
\<close>

definition sample_enc_chr :: "char \<Rightarrow> string" where
  "sample_enc_chr c =
     (if c = CHR '','' then ''%a'' else if c = CHR 0x22 then ''%b''
      else if c = CHR ''%'' then ''%c'' else [c])"

definition sample_b64encode :: "string \<Rightarrow> string" where
  "sample_b64encode s = concat (map sample_enc_chr s)"

definition sample_dec_chr :: "char \<Rightarrow> char option" where
  "sample_dec_chr y =
     (if y = CHR ''a'' then Some (CHR '','') else if y = CHR ''b'' then Some (CHR 0x22)
      else if y = CHR ''c'' then Some (CHR ''%'') else None)"

fun sample_b64decode :: "string \<Rightarrow> string option" where
  "sample_b64decode [] = Some []"
| "sample_b64decode [x] = (if x = CHR ''%'' then None else Some [x])"
| "sample_b64decode (x # y # ys) =
     (if x = CHR ''%''
      then (case sample_dec_chr y of
              None \<Rightarrow> None
            | Some c \<Rightarrow> map_option (Cons c) (sample_b64decode ys))
      else map_option (Cons x) (sample_b64decode (y # ys)))"

definition sample_lib :: lib where
  "sample_lib =
     \<lparr>sha256 = (\<lambda>c. c),
      b64encode = sample_b64encode,
      b64decode = sample_b64decode,
      pkcs1v15_sign = (\<lambda>k m. Inr (k @ m)),
      rsa_verify = (\<lambda>k s m. s = k @ m),
      ed25519_verify = (\<lambda>k s m. s = k @ m),
      url_netloc = (\<lambda>u. takeWhile (\<lambda>c. c \<noteq> CHR ''/'') (drop 8 u)),
      url_path = (\<lambda>u. dropWhile (\<lambda>c. c \<noteq> CHR ''/'') (drop 8 u))\<rparr>"

text \<open>A signed delivery used in the closed examples.\<close>

definition sample_url :: string where
  "sample_url = ''https://b.example/pub/bob/inbox''"

definition sample_now :: string where
  "sample_now = ''Wed, 04 Nov 2026 10:00:00 GMT''"

definition sample_key :: string where
  "sample_key = ''KEY-A''"

definition sample_key_id :: string where
  "sample_key_id = ''https://a.example/pub/alice#main-key''"

definition sample_checker :: signature_checker where
  "sample_checker = \<lparr>controller = Some ''https://a.example/pub/alice'',
      key_id = Some sample_key_id, public_key = RSAPublicKey sample_key\<rparr>"

definition other_checker :: signature_checker where
  "other_checker = \<lparr>controller = Some ''https://a.example/pub/carol'',
      key_id = Some ''https://a.example/pub/carol#main-key'', public_key = RSAPublicKey sample_key\<rparr>"

section \<open>JSON values and the environment of the store\<close>

text \<open>
  A decoded JSON document, which is also how the model represents the Python values the
  code reads out of one (\<open>JNull\<close> is \<open>None\<close>, \<open>JObj\<close> a \<open>dict\<close>).
\<close>

datatype json =
    JNull
  | JBool bool
  | JNum int
  | JStr string
  | JArr "json list"
  | JObj "(string \<times> json) list"

text \<open>\<open>d.get(key)\<close>: \<open>None\<close> for an absent key; a value that is no dict has no \<open>get\<close>.\<close>

definition py_get :: "json \<Rightarrow> string \<Rightarrow> exn + json" where
  "py_get d k =
     (case d of
        JObj kvs \<Rightarrow> Inr (case map_of kvs k of None \<Rightarrow> JNull | Some v \<Rightarrow> v)
      | _ \<Rightarrow> Inl AttributeError)"

text \<open>\<open>d[key]\<close> with a string key.\<close>

definition py_item :: "json \<Rightarrow> string \<Rightarrow> exn + json" where
  "py_item d k =
     (case d of
        JObj kvs \<Rightarrow> (case map_of kvs k of None \<Rightarrow> Inl KeyError | Some v \<Rightarrow> Inr v)
      | _ \<Rightarrow> Inl TypeError)"

text \<open>\<open>key in d\<close> for a dict.\<close>

definition py_in :: "string \<Rightarrow> json \<Rightarrow> bool" where
  "py_in k d = (case d of JObj kvs \<Rightarrow> k \<in> fst ` set kvs | _ \<Rightarrow> False)"

text \<open>The truth value of a Python value, as \<open>if x\<close> and \<open>:=\<close> tests read it.\<close>

definition py_truthy :: "json \<Rightarrow> bool" where
  "py_truthy v =
     (case v of
        JNull \<Rightarrow> False
      | JBool b \<Rightarrow> b
      | JNum n \<Rightarrow> n \<noteq> 0
      | JStr s \<Rightarrow> s \<noteq> []
      | JArr xs \<Rightarrow> xs \<noteq> []
      | JObj kvs \<Rightarrow> kvs \<noteq> [])"

text \<open>\<open>s.startswith(prefix)\<close>.\<close>

definition startswith :: "string \<Rightarrow> string \<Rightarrow> bool" where
  "startswith s pre = (take (length pre) s = pre)"

text \<open>
  What a \<open>requests.get\<close> followed by \<open>raise_for_status()\<close> and \<open>json()\<close> can give:
  a transport failure or a status that is no success, a body that is no JSON, or the
  decoded document.
\<close>

datatype http_result = Failed | NotJson | Json json

text \<open>The arguments of one \<open>signed_post\<close> call made by the store or the inbox.\<close>

record delivery =
  dl_url :: json
  dl_private_key :: string
  dl_public_key_url :: string
  dl_body :: json

text \<open>What Django's \<open>resolve(path)\<close> finds for the path of a URL.\<close>

datatype url_match = NoMatch | ProfileMatch string string | OtherMatch

text \<open>
  The world outside the repository's code, as one request sees it: the network
  (\<open>http_get url\<close> for a GET with \<open>Accept: application/activity+json\<close>,
  \<open>webfinger_get domain username\<close> for the well-known lookup, \<open>http_post d\<close> telling
  whether the response to the signed delivery \<open>d\<close> passes \<open>raise_for_status()\<close>), the
  URL configuration (\<open>resolve_url url\<close> for \<open>resolve(urlparse(url).path)\<close>, with the
  matched username and the URL's authority; \<open>netloc\<close> for \<open>urlparse(url).netloc\<close>;
  \<open>reverse_profile\<close> for
  \<open>reverse('activitypub-profile', ...)\<close>), \<open>uuid.uuid4()\<close>, the clock, the date
  formats, the matches of \<open>mention_pattern\<close> in a text as (username, domain) pairs, and
  the depth Python's recursion limit leaves.
\<close>

record env =
  http_get :: "string \<Rightarrow> http_result"
  webfinger_get :: "string \<Rightarrow> string \<Rightarrow> http_result"
  http_post :: "delivery \<Rightarrow> bool"
  resolve_url :: "string \<Rightarrow> url_match"
  netloc :: "string \<Rightarrow> string"
  reverse_profile :: "string \<Rightarrow> string"
  uuid4 :: string
  timezone_now :: nat
  parse_datetime :: "string \<Rightarrow> nat option"
  format_datetime :: "nat \<Rightarrow> string"
  timestamp :: "nat \<Rightarrow> string"
  mention_matches :: "string \<Rightarrow> (string \<times> string) list"
  recursion_limit :: nat

section \<open>webfinger.py\<close>

text \<open>
  \<open>fetch_remote_profile(url)\<close>. Only the request is inside the \<open>try\<close>: a body that
  is no JSON raises the decoder's own error. The \<open>lru_cache\<close> is not modelled; the
  network of one request is a function, so a repeated fetch gives the same answer. A
  URL that is no string is refused by \<open>requests\<close> inside the \<open>try\<close>.
\<close>

definition fetch_remote_profile :: "env \<Rightarrow> json \<Rightarrow> exn + json" where
  "fetch_remote_profile E url =
     (case url of
        JStr u \<Rightarrow>
          (case http_get E u of
             Failed \<Rightarrow> Inl WebfingerException
           | NotJson \<Rightarrow> Inl RequestException
           | Json data \<Rightarrow> Inr data)
      | _ \<Rightarrow> Inl WebfingerException)"

text \<open>
  The generator expression of \<open>finger\<close>: the first link with \<open>rel == 'self'\<close> and
  \<open>type == 'application/activity+json'\<close>, or \<open>None\<close>.
\<close>

fun first_self_link :: "json list \<Rightarrow> exn + json" where
  "first_self_link [] = Inr JNull"
| "first_self_link (rel # rest) =
     (case rel of
        JObj kvs \<Rightarrow>
          (if map_of kvs ''rel'' = Some (JStr ''self'')
              \<and> map_of kvs ''type'' = Some (JStr ''application/activity+json'')
           then Inr rel
           else first_self_link rest)
      | _ \<Rightarrow> Inl AttributeError)"

text \<open>
  \<open>finger(username, domain)\<close>. Iterating \<open>links\<close> works on a list; on a non-empty
  string or dict the elements are strings, which have no \<open>get\<close>; other values are
  not iterable.
\<close>

definition finger :: "env \<Rightarrow> string \<Rightarrow> string \<Rightarrow> exn + json" where
  "finger E username domain =
     (case webfinger_get E domain username of
        Failed \<Rightarrow> Inl WebfingerException
      | NotJson \<Rightarrow> Inl WebfingerException
      | Json webfinger_data \<Rightarrow>
          (case (case webfinger_data of
                   JObj kvs \<Rightarrow> Inr (case map_of kvs ''links'' of None \<Rightarrow> JArr [] | Some l \<Rightarrow> l)
                 | _ \<Rightarrow> Inl AttributeError) of
             Inl e \<Rightarrow> Inl e
           | Inr links \<Rightarrow>
               (case (case links of
                        JArr ls \<Rightarrow> first_self_link ls
                      | JStr s \<Rightarrow> (if s = [] then Inr JNull else Inl AttributeError)
                      | JObj kvs \<Rightarrow> (if kvs = [] then Inr JNull else Inl AttributeError)
                      | _ \<Rightarrow> Inl TypeError) of
                  Inl e \<Rightarrow> Inl e
                | Inr profile_link \<Rightarrow>
                    (if profile_link \<noteq> JNull
                     then (case py_get profile_link ''href'' of
                             Inl e \<Rightarrow> Inl e
                           | Inr href \<Rightarrow>
                               (case fetch_remote_profile E href of
                                  Inl e \<Rightarrow> Inl e
                                | Inr profile_data \<Rightarrow>
                                    Inr (JObj [(''webfinger'', webfinger_data),
                                               (''profile'', profile_data)])))
                     else Inr (JObj [(''webfinger'', webfinger_data), (''profile'', JNull)])))))"

section \<open>models.py: the tables\<close>

text \<open>
  The rows of the four models; a foreign key is the id of the row it names. The store
  also keeps two logs that the code does not have: every activity envelope built for a
  delivery, and every \<open>signed_post\<close> call made, in order.
\<close>

record local_actor =
  la_id :: nat
  la_preferred_username :: string
  la_domain :: string
  la_private_key :: string

record remote_actor =
  ra_id :: nat
  ra_username :: string
  ra_domain :: string
  ra_url :: string
  ra_profile :: json

record follower =
  fo_id :: nat
  fo_remote_actor :: nat
  fo_following :: nat
  fo_follow_date :: nat

record note_row =
  no_id :: nat
  no_local_actor :: "nat option"
  no_remote_actor :: "nat option"
  no_published_at :: nat
  no_updated_at :: nat
  no_content :: string
  no_content_url :: string
  no_parent :: "nat option"
  no_likes :: "nat list"
  no_announces :: "nat list"

record store =
  local_actors :: "local_actor list"
  remote_actors :: "remote_actor list"
  follower_rows :: "follower list"
  note_rows :: "note_row list"
  next_id :: nat
  envelopes :: "json list"
  sent :: "delivery list"

text \<open>
  Every operation returns its value or the exception it raised, and the store as it then
  is: rows saved before an exception stay saved.
\<close>

type_synonym 'a outcome = "(exn + 'a) \<times> store"

text \<open>\<open>Manager.get(...)\<close> over the rows that match.\<close>

definition get_row :: "'a list \<Rightarrow> exn + 'a" where
  "get_row rows =
     (case rows of
        [] \<Rightarrow> Inl DoesNotExist
      | [r] \<Rightarrow> Inr r
      | _ \<Rightarrow> Inl MultipleObjectsReturned)"

section \<open>models.py: the managers\<close>

text \<open>
  \<open>self.create(...)\<close> of a \<open>RemoteActor\<close>: \<open>url\<close> is unique, so a second row with
  the same URL is refused with \<open>IntegrityError\<close>.
\<close>

definition create_remote_actor ::
  "string \<Rightarrow> string \<Rightarrow> string \<Rightarrow> json \<Rightarrow> store \<Rightarrow> remote_actor outcome" where
  "create_remote_actor username domain url profile s =
     (if url \<in> ra_url ` set (remote_actors s) then (Inl IntegrityError, s)
      else (let r = \<lparr>ra_id = next_id s, ra_username = username, ra_domain = domain,
                      ra_url = url, ra_profile = profile\<rparr>
            in (Inr r, s\<lparr>remote_actors := remote_actors s @ [r], next_id := Suc (next_id s)\<rparr>)))"

text \<open>
  \<open>RemoteActorManager.get_or_create_with_url(url)\<close>. A \<open>preferredUsername\<close> that is
  no string cannot be stored in the non-null text column.
\<close>

definition get_or_create_with_url :: "env \<Rightarrow> json \<Rightarrow> store \<Rightarrow> remote_actor outcome" where
  "get_or_create_with_url E url s =
     (case get_row (case url of
                      JStr u \<Rightarrow> filter (\<lambda>r. ra_url r = u) (remote_actors s)
                    | _ \<Rightarrow> []) of
        Inr r \<Rightarrow> (Inr r, s)
      | Inl e \<Rightarrow>
          (if e \<noteq> DoesNotExist then (Inl e, s)
           else (case fetch_remote_profile E url of
                   Inl e' \<Rightarrow> (Inl e', s)
                 | Inr data \<Rightarrow>
                     (case py_get data ''preferredUsername'' of
                        Inl e' \<Rightarrow> (Inl e', s)
                      | Inr uname \<Rightarrow>
                          (case (uname, url) of
                             (JStr un, JStr u) \<Rightarrow> create_remote_actor un (netloc E u) u data s
                           | _ \<Rightarrow> (Inl IntegrityError, s))))))"

text \<open>
  \<open>RemoteActorManager.get_or_create_with_username_domain(username, domain)\<close>; the
  result is \<open>None\<close> where the code returns \<open>None\<close>.
\<close>

definition get_or_create_with_username_domain ::
  "env \<Rightarrow> string \<Rightarrow> string \<Rightarrow> store \<Rightarrow> remote_actor option outcome" where
  "get_or_create_with_username_domain E username domain s =
     (case get_row (filter (\<lambda>r. ra_username r = username \<and> ra_domain r = domain)
                      (remote_actors s)) of
        Inr r \<Rightarrow> (Inr (Some r), s)
      | Inl e \<Rightarrow>
          (if e \<noteq> DoesNotExist then (Inl e, s)
           else (case finger E username domain of
                   Inl e' \<Rightarrow> (Inl e', s)
                 | Inr data \<Rightarrow>
                     (if \<not> py_in ''profile'' data then (Inr None, s)
                      else (case py_item data ''profile'' of
                              Inl e' \<Rightarrow> (Inl e', s)
                            | Inr profile \<Rightarrow>
                                (case py_get profile ''id'' of
                                   Inl e' \<Rightarrow> (Inl e', s)
                                 | Inr url \<Rightarrow>
                                     (case url of
                                        JStr u \<Rightarrow>
                                          (case get_row (filter (\<lambda>r. ra_url r = u) (remote_actors s)) of
                                             Inr r \<Rightarrow> (Inr (Some r), s)
                                           | Inl e' \<Rightarrow>
                                               (if e' \<noteq> DoesNotExist then (Inl e', s)
                                                else (case create_remote_actor username domain u profile s of
                                                        (Inl e'', s') \<Rightarrow> (Inl e'', s')
                                                      | (Inr r, s') \<Rightarrow> (Inr (Some r), s'))))
                                      | _ \<Rightarrow> (Inl IntegrityError, s))))))))"

text \<open>\<open>LocalActorManager.get_by_url(url)\<close>.\<close>

definition get_by_url :: "env \<Rightarrow> json \<Rightarrow> store \<Rightarrow> exn + local_actor option" where
  "get_by_url E url s =
     (case url of
        JStr u \<Rightarrow>
          (case resolve_url E u of
             NoMatch \<Rightarrow> Inl Resolver404
           | ProfileMatch username host \<Rightarrow>
               (case get_row (filter (\<lambda>a. la_preferred_username a = username \<and> la_domain a = host)
                                (local_actors s)) of
                  Inl e \<Rightarrow> Inl e
                | Inr a \<Rightarrow> Inr (Some a))
           | OtherMatch \<Rightarrow> Inr None)
      | _ \<Rightarrow> Inl TypeError)"

text \<open>\<open>get_object(url)\<close>.\<close>

definition get_object :: "env \<Rightarrow> json \<Rightarrow> exn + json" where
  "get_object E url =
     (case url of
        JStr u \<Rightarrow>
          (case http_get E u of
             Failed \<Rightarrow> Inl HTTPError
           | NotJson \<Rightarrow> Inl RequestException
           | Json data \<Rightarrow> Inr data)
      | _ \<Rightarrow> Inl RequestException)"

text \<open>
  The related rows of a note: \<open>note.local_actor\<close>, \<open>note.remote_actor\<close>,
  \<open>note.parent\<close>. Reading a foreign key whose row is not stored raises the
  \<open>RelatedObjectDoesNotExist\<close> of the field, a subclass of the \<open>DoesNotExist\<close> of
  the model it names; the one of \<open>note.parent\<close> is a \<open>Note.DoesNotExist\<close>, and
  it is \<open>ParentDoesNotExist\<close> here, because \<open>upsert\<close> and \<open>delete_local\<close>
  catch that class around code that reads other models.
\<close>

definition find_local_actor :: "store \<Rightarrow> nat \<Rightarrow> exn + local_actor" where
  "find_local_actor s i =
     (case find (\<lambda>a. la_id a = i) (local_actors s) of None \<Rightarrow> Inl DoesNotExist | Some a \<Rightarrow> Inr a)"

definition find_remote_actor :: "store \<Rightarrow> nat \<Rightarrow> exn + remote_actor" where
  "find_remote_actor s i =
     (case find (\<lambda>r. ra_id r = i) (remote_actors s) of None \<Rightarrow> Inl DoesNotExist | Some r \<Rightarrow> Inr r)"

definition find_note :: "store \<Rightarrow> nat \<Rightarrow> exn + note_row" where
  "find_note s i =
     (case find (\<lambda>n. no_id n = i) (note_rows s) of None \<Rightarrow> Inl ParentDoesNotExist | Some n \<Rightarrow> Inr n)"

text \<open>
  \<open>parse_mentions(content)\<close>, over the matches of the mention pattern. The dict
  \<open>mentioned\<close> is never filled, so no match is skipped; an actor that resolves to
  \<open>None\<close> has no \<open>url\<close>.
\<close>

fun parse_mentions :: "env \<Rightarrow> (string \<times> string) list \<Rightarrow> store \<Rightarrow> json list outcome" where
  "parse_mentions E [] s = (Inr [], s)"
| "parse_mentions E (key # keys) s =
     (case get_or_create_with_username_domain E (fst key) (snd key) s of
        (Inl e, s1) \<Rightarrow> (Inl e, s1)
      | (Inr None, s1) \<Rightarrow> (Inl AttributeError, s1)
      | (Inr (Some actor), s1) \<Rightarrow>
          (case parse_mentions E keys s1 of
             (Inl e, s2) \<Rightarrow> (Inl e, s2)
           | (Inr tags, s2) \<Rightarrow>
               (Inr (JObj [(''type'', JStr ''Mention''),
                           (''href'', JStr (ra_url actor)),
                           (''name'', JStr (fst key @ ''@'' @ snd key))] # tags), s2)))"

text \<open>\<open>Note.as_json(base_uri)\<close>.\<close>

definition as_json :: "env \<Rightarrow> string \<Rightarrow> note_row \<Rightarrow> store \<Rightarrow> json outcome" where
  "as_json E base_uri self s =
     (case (case no_local_actor self of
              Some i \<Rightarrow>
                (case find_local_actor s i of
                   Inl e \<Rightarrow> Inl e
                 | Inr a \<Rightarrow> Inr (base_uri @ reverse_profile E (la_preferred_username a)))
            | None \<Rightarrow>
                (case no_remote_actor self of
                   None \<Rightarrow> Inl AttributeError
                 | Some i \<Rightarrow>
                     (case find_remote_actor s i of Inl e \<Rightarrow> Inl e | Inr r \<Rightarrow> Inr (ra_url r)))) of
        Inl e \<Rightarrow> (Inl e, s)
      | Inr attributed \<Rightarrow>
          (case parse_mentions E (mention_matches E (no_content self)) s of
             (Inl e, s1) \<Rightarrow> (Inl e, s1)
           | (Inr tags, s1) \<Rightarrow>
               (let data =
                      [(''type'', JStr ''Note''),
                       (''id'', JStr (no_content_url self)),
                       (''published'', JStr (format_datetime E (no_published_at self))),
                       (''attributedTo'', JStr attributed),
                       (''content'', JStr (no_content self)),
                       (''tags'', JArr tags),
                       (''to'', JStr ''https://www.w3.org/ns/activitystreams#Public'')]
                in case no_parent self of
                     None \<Rightarrow> (Inr (JObj data), s1)
                   | Some p \<Rightarrow>
                       (case find_note s1 p of
                          Inl e \<Rightarrow> (Inl e, s1)
                        | Inr parent \<Rightarrow>
                            (Inr (JObj (data @ [(''inReplyTo'', JStr (no_content_url parent))])), s1)))))"

text \<open>
  \<open>local_actor.followers.all()\<close>: the remote actors joined through the \<open>Follower\<close>
  rows whose \<open>following\<close> is the actor.
\<close>

definition followers_of :: "store \<Rightarrow> nat \<Rightarrow> remote_actor list" where
  "followers_of s i =
     concat (map (\<lambda>f. filter (\<lambda>r. ra_id r = fo_remote_actor f) (remote_actors s))
               (filter (\<lambda>f. fo_following f = i) (follower_rows s)))"

text \<open>
  The loop \<open>for follower in note.local_actor.followers.all()\<close> that the three
  \<open>send_..._to_followers\<close> functions end with: a response that is no success ends it
  with \<open>HTTPError\<close>.
\<close>

fun deliver_to :: "env \<Rightarrow> string \<Rightarrow> string \<Rightarrow> json \<Rightarrow> remote_actor list \<Rightarrow> store \<Rightarrow> unit outcome" where
  "deliver_to E private_key key_url msg [] s = (Inr (), s)"
| "deliver_to E private_key key_url msg (follower # rest) s =
     (case py_get (ra_profile follower) ''inbox'' of
        Inl e \<Rightarrow> (Inl e, s)
      | Inr inbox_url \<Rightarrow>
          (let d = \<lparr>dl_url = inbox_url, dl_private_key = private_key,
                     dl_public_key_url = key_url, dl_body = msg\<rparr>;
               s1 = s\<lparr>sent := sent s @ [d]\<rparr>
           in if http_post E d then deliver_to E private_key key_url msg rest s1
              else (Inl HTTPError, s1)))"

text \<open>
  The common shape of \<open>send_create_note_to_followers\<close>,
  \<open>send_update_note_to_followers\<close> and \<open>send_delete_note_to_followers\<close>: the actor
  URL from \<open>note.local_actor\<close>, the envelope, the loop. \<open>build\<close> makes the envelope
  from the actor URL and the store, and may itself touch the store (\<open>as_json\<close>
  resolves mentions).
\<close>

definition send_to_followers ::
  "env \<Rightarrow> string \<Rightarrow> note_row \<Rightarrow> (string \<Rightarrow> store \<Rightarrow> json outcome) \<Rightarrow> store \<Rightarrow> unit outcome" where
  "send_to_followers E base_url n build s =
     (case (case no_local_actor n of
              None \<Rightarrow> Inl AttributeError
            | Some i \<Rightarrow> find_local_actor s i) of
        Inl e \<Rightarrow> (Inl e, s)
      | Inr actor \<Rightarrow>
          (let actor_url = base_url @ reverse_profile E (la_preferred_username actor) in
           case build actor_url s of
             (Inl e, s1) \<Rightarrow> (Inl e, s1)
           | (Inr msg, s1) \<Rightarrow>
               (let s2 = s1\<lparr>envelopes := envelopes s1 @ [msg]\<rparr>
                in deliver_to E (la_private_key actor) (actor_url @ ''#main-key'') msg
                     (followers_of s2 (la_id actor)) s2)))"

definition send_create_note_to_followers :: "env \<Rightarrow> string \<Rightarrow> note_row \<Rightarrow> store \<Rightarrow> unit outcome" where
  "send_create_note_to_followers E base_url n s =
     send_to_followers E base_url n
       (\<lambda>actor_url s0.
          case as_json E base_url n s0 of
            (Inl e, s1) \<Rightarrow> (Inl e, s1)
          | (Inr obj, s1) \<Rightarrow>
              (Inr (JObj [(''@context'', JArr [JStr ''https://www.w3.org/ns/activitystreams'',
                                              JStr ''https://w3id.org/security/v1'']),
                          (''type'', JStr ''Create''),
                          (''id'', JStr (base_url @ ''/'' @ uuid4 E)),
                          (''actor'', JStr actor_url),
                          (''object'', obj)]), s1)) s"

definition send_update_note_to_followers :: "env \<Rightarrow> string \<Rightarrow> note_row \<Rightarrow> store \<Rightarrow> unit outcome" where
  "send_update_note_to_followers E base_url n s =
     send_to_followers E base_url n
       (\<lambda>actor_url s0.
          case as_json E base_url n s0 of
            (Inl e, s1) \<Rightarrow> (Inl e, s1)
          | (Inr obj, s1) \<Rightarrow>
              (Inr (JObj [(''@context'', JArr [JStr ''https://www.w3.org/ns/activitystreams'']),
                          (''type'', JStr ''Update''),
                          (''id'', JStr (no_content_url n @ ''#updates/'' @ timestamp E (no_updated_at n))),
                          (''actor'', JStr actor_url),
                          (''object'', obj),
                          (''published'', JStr (format_datetime E (no_published_at n)))]), s1)) s"


text \<open>\<open>note.save()\<close> of a row that is stored: the row with its id is replaced.\<close>

definition update_note :: "note_row \<Rightarrow> store \<Rightarrow> store" where
  "update_note n s = s\<lparr>note_rows := map (\<lambda>m. if no_id m = no_id n then n else m) (note_rows s)\<rparr>"

text \<open>
  The \<open>except Note.DoesNotExist\<close> branch of \<open>upsert\<close>:
  \<open>super().create(local_actor=..., content=..., content_url=...)\<close> and the
  \<open>Create\<close> fan-out. The related \<open>LocalActor\<close> of the new row must be stored
  (the foreign key), and the fan-out reads it from the table. \<open>auto_now\<close> and
  \<open>auto_now_add\<close> set the dates.
\<close>

definition upsert_create ::
  "env \<Rightarrow> string \<Rightarrow> local_actor \<Rightarrow> string \<Rightarrow> string \<Rightarrow> store \<Rightarrow> note_row outcome" where
  "upsert_create E base_uri actor content content_url s =
     (if la_id actor \<notin> la_id ` set (local_actors s) then (Inl IntegrityError, s)
      else (let n1 = \<lparr>no_id = next_id s, no_local_actor = Some (la_id actor),
                       no_remote_actor = None, no_published_at = timezone_now E,
                       no_updated_at = timezone_now E, no_content = content,
                       no_content_url = content_url, no_parent = None,
                       no_likes = [], no_announces = []\<rparr>;
                s1 = s\<lparr>note_rows := note_rows s @ [n1], next_id := Suc (next_id s)\<rparr>
            in case send_create_note_to_followers E base_uri n1 s1 of
                 (Inl e, s2) \<Rightarrow> (Inl e, s2)
               | (Inr u, s2) \<Rightarrow> (Inr n1, s2)))"

text \<open>
  \<open>NoteManager.upsert(base_uri, local_actor, content, content_url)\<close>. The
  \<open>try\<close> holds the look-up, the \<open>save()\<close> and the \<open>Update\<close> fan-out, so a
  \<open>Note.DoesNotExist\<close> raised by the fan-out is caught as well, after the row was
  saved. Only \<open>Note.DoesNotExist\<close> is caught: \<open>MultipleObjectsReturned\<close> and
  every other exception leave the function.
\<close>

definition upsert ::
  "env \<Rightarrow> string \<Rightarrow> local_actor \<Rightarrow> string \<Rightarrow> string \<Rightarrow> store \<Rightarrow> note_row outcome" where
  "upsert E base_uri actor content content_url s =
     (case get_row (filter (\<lambda>n. no_content_url n = content_url) (note_rows s)) of
        Inr n \<Rightarrow>
          (let n1 = n\<lparr>no_updated_at := timezone_now E, no_content := content\<rparr>;
               s1 = update_note n1 s
           in case send_update_note_to_followers E base_uri n1 s1 of
                (Inl e, s2) \<Rightarrow>
                  (if e = ParentDoesNotExist then upsert_create E base_uri actor content content_url s2
                   else (Inl e, s2))
              | (Inr u, s2) \<Rightarrow> (Inr n1, s2))
      | Inl e \<Rightarrow>
          (if e \<noteq> DoesNotExist then (Inl e, s)
           else upsert_create E base_uri actor content content_url s))"


text \<open>
  \<open>parse_datetime(time)\<close> of \<open>models.py\<close> on a value read from a document:
  \<open>strptime\<close> raises \<open>TypeError\<close> on a value that is no string and \<open>ValueError\<close>
  on a string in another format.
\<close>

definition parse_datetime_value :: "env \<Rightarrow> json \<Rightarrow> exn + nat" where
  "parse_datetime_value E v =
     (case v of
        JStr t \<Rightarrow> (case parse_datetime E t of None \<Rightarrow> Inl ValueError | Some d \<Rightarrow> Inr d)
      | _ \<Rightarrow> Inl TypeError)"

text \<open>The \<open>try\<close> that opens \<open>upsert_remote\<close>: the stored note, or none.\<close>

definition lookup_note :: "json \<Rightarrow> store \<Rightarrow> exn + note_row option" where
  "lookup_note content_url s =
     (case get_row (filter (\<lambda>n. JStr (no_content_url n) = content_url) (note_rows s)) of
        Inr n \<Rightarrow> Inr (Some n)
      | Inl e \<Rightarrow> (if e \<noteq> DoesNotExist then Inl e else Inr None))"

text \<open>
  \<open>NoteManager.upsert_remote(base_uri, obj)\<close>. The first argument is the recursion
  depth that is left: the function calls itself for a parent that is not local, and
  Python ends a recursion that is too deep with \<open>RecursionError\<close>. The note is
  looked up under the fetched document's \<open>id\<close> and stored under \<open>obj['id']\<close>. On
  \<open>save()\<close>, \<open>auto_now\<close> sets \<open>updated_at\<close>, and \<open>auto_now_add\<close> sets
  \<open>published_at\<close> of a row that is inserted. A \<open>content\<close> that is no string is
  refused here (the model keeps the text column as a string).
\<close>

fun upsert_remote :: "nat \<Rightarrow> env \<Rightarrow> string \<Rightarrow> json \<Rightarrow> store \<Rightarrow> note_row outcome" where
  "upsert_remote 0 E base_uri obj s = (Inl RecursionError, s)"
| "upsert_remote (Suc depth) E base_uri obj s =
     (case py_item obj ''id'' of Inl e \<Rightarrow> (Inl e, s) | Inr obj_id \<Rightarrow>
     (case get_object E obj_id of Inl e \<Rightarrow> (Inl e, s) | Inr full_obj \<Rightarrow>
     (case py_item full_obj ''id'' of Inl e \<Rightarrow> (Inl e, s) | Inr full_id \<Rightarrow>
     (case lookup_note full_id s of Inl e \<Rightarrow> (Inl e, s) | Inr existing \<Rightarrow>
     (case py_item full_obj ''attributedTo'' of Inl e \<Rightarrow> (Inl e, s) | Inr attributed \<Rightarrow>
     (case get_or_create_with_url E attributed s of (Inl e, s1) \<Rightarrow> (Inl e, s1) | (Inr actor, s1) \<Rightarrow>
     (case py_item full_obj ''published'' of Inl e \<Rightarrow> (Inl e, s1) | Inr published \<Rightarrow>
     (case parse_datetime_value E published of Inl e \<Rightarrow> (Inl e, s1) | Inr published_at \<Rightarrow>
     (case py_get full_obj ''updated'' of Inl e \<Rightarrow> (Inl e, s1) | Inr updated \<Rightarrow>
     (case (if py_truthy updated then parse_datetime_value E updated else Inr 0) of
        Inl e \<Rightarrow> (Inl e, s1) | Inr updated_at \<Rightarrow>
     (case py_item full_obj ''content'' of Inl e \<Rightarrow> (Inl e, s1) | Inr content \<Rightarrow>
     (case (content, obj_id) of
        (JStr c, JStr u) \<Rightarrow>
          (case py_get full_obj ''inReplyTo'' of Inl e \<Rightarrow> (Inl e, s1) | Inr reply_url \<Rightarrow>
          (case (if \<not> py_truthy reply_url then (Inr None, s1)
                 else (case reply_url of
                         JStr r \<Rightarrow>
                           (if startswith r base_uri
                            then (case get_row (filter (\<lambda>n. no_content_url n = r) (note_rows s1)) of
                                    Inl e \<Rightarrow> (Inl e, s1)
                                  | Inr p \<Rightarrow> (Inr (Some (no_id p)), s1))
                            else (case get_object E reply_url of
                                    Inl e \<Rightarrow> (Inl e, s1)
                                  | Inr parent_obj \<Rightarrow>
                                      (case upsert_remote depth E base_uri parent_obj s1 of
                                         (Inl e, s2) \<Rightarrow> (Inl e, s2)
                                       | (Inr p, s2) \<Rightarrow> (Inr (Some (no_id p)), s2))))
                       | _ \<Rightarrow> (Inl AttributeError, s1))) of
             (Inl e, s2) \<Rightarrow> (Inl e, s2)
           | (Inr parent, s2) \<Rightarrow>
               (case existing of
                  Some n \<Rightarrow>
                    (let n1 = n\<lparr>no_remote_actor := Some (ra_id actor),
                                 no_published_at := published_at,
                                 no_updated_at := timezone_now E,
                                 no_content := c,
                                 no_content_url := u,
                                 no_parent := (case parent of None \<Rightarrow> no_parent n | Some p \<Rightarrow> Some p)\<rparr>
                     in (Inr n1, update_note n1 s2))
                | None \<Rightarrow>
                    (let n1 = \<lparr>no_id = next_id s2, no_local_actor = None,
                                no_remote_actor = Some (ra_id actor),
                                no_published_at = timezone_now E, no_updated_at = timezone_now E,
                                no_content = c, no_content_url = u, no_parent = parent,
                                no_likes = [], no_announces = []\<rparr>
                     in (Inr n1, s2\<lparr>note_rows := note_rows s2 @ [n1],
                                    next_id := Suc (next_id s2)\<rparr>)))))
      | _ \<Rightarrow> (Inl TypeError, s1)))))))))))))"

section \<open>views.py: the inbox\<close>

text \<open>
  A response: its JSON body, kept as the case that built it (\<open>ErrorBody t v\<close> is
  \<open>{'error': f'{t}{v}'}\<close>), and its status.
\<close>

datatype resp_body = EmptyBody | OkBody | ErrorBody string json

datatype response = JsonResponse resp_body nat

text \<open>
  What \<open>inbox\<close> reads of the request: the method, the decoded body (\<open>None\<close> where
  \<open>json.loads\<close> raises), what \<open>validate_post_request\<close> returns for it (a response,
  or \<open>None\<close> when the signature verifies), and \<open>scheme://host\<close>.
\<close>

record inbox_request =
  rq_method :: string
  rq_activity :: "json option"
  rq_validate :: "response option"
  rq_base_uri :: string

text \<open>\<open>get_object_or_404(Model, ...)\<close> over the rows that match.\<close>

definition get_object_or_404 :: "'a list \<Rightarrow> exn + 'a" where
  "get_object_or_404 rows =
     (case get_row rows of
        Inr r \<Rightarrow> Inr r
      | Inl e \<Rightarrow> (if e = DoesNotExist then Inl Http404 else Inl e))"

text \<open>
  Saving a new \<open>Follower\<close> row. The model declares the constraint
  \<open>UniqueConstraint(fields=['remote_actor', 'following'])\<close>: the database refuses a
  second row for a pair with \<open>IntegrityError\<close>. \<open>auto_now\<close> sets the date.
\<close>

definition follower_create :: "env \<Rightarrow> nat \<Rightarrow> nat \<Rightarrow> store \<Rightarrow> follower outcome" where
  "follower_create E remote following s =
     (if (remote, following) \<in> (\<lambda>f. (fo_remote_actor f, fo_following f)) ` set (follower_rows s)
      then (Inl IntegrityError, s)
      else (let f = \<lparr>fo_id = next_id s, fo_remote_actor = remote,
                      fo_following = following, fo_follow_date = timezone_now E\<rparr>
            in (Inr f, s\<lparr>follower_rows := follower_rows s @ [f],
                          next_id := Suc (next_id s)\<rparr>)))"

text \<open>
  \<open>Follower.objects.get_or_create(remote_actor=..., following=...)\<close>: the row that
  matches, or a new one. (Django answers an \<open>IntegrityError\<close> of the insert with a
  second look-up and raises it again when that finds nothing; the look-up and the
  insert see the same rows here.)
\<close>

definition follower_get_or_create :: "env \<Rightarrow> nat \<Rightarrow> nat \<Rightarrow> store \<Rightarrow> follower outcome" where
  "follower_get_or_create E remote following s =
     (case get_row (filter (\<lambda>f. fo_remote_actor f = remote \<and> fo_following f = following)
                      (follower_rows s)) of
        Inr f \<Rightarrow> (Inr f, s)
      | Inl e \<Rightarrow>
          (if e \<noteq> DoesNotExist then (Inl e, s)
           else follower_create E remote following s))"

text \<open>\<open>note.likes.add(actor)\<close> and \<open>remove\<close>, and the same for \<open>announces\<close>.\<close>

definition m2m_add :: "nat \<Rightarrow> nat list \<Rightarrow> nat list" where
  "m2m_add x xs = (if x \<in> set xs then xs else xs @ [x])"

definition m2m_remove :: "nat \<Rightarrow> nat list \<Rightarrow> nat list" where
  "m2m_remove x xs = filter (\<lambda>y. y \<noteq> x) xs"

text \<open>The branch \<open>activity['type'] == 'Follow'\<close> (source lines 154 to 188).\<close>

definition inbox_follow :: "env \<Rightarrow> inbox_request \<Rightarrow> json \<Rightarrow> local_actor \<Rightarrow> store \<Rightarrow> response outcome" where
  "inbox_follow E request activity actor s =
     (case py_item activity ''object'' of Inl e \<Rightarrow> (Inl e, s) | Inr obj \<Rightarrow>
     (case get_by_url E obj s of Inl e \<Rightarrow> (Inl e, s) | Inr found \<Rightarrow>
     (case found of None \<Rightarrow> (Inl AttributeError, s) | Some local_actor \<Rightarrow>
      if la_id local_actor \<noteq> la_id actor
      then (Inr (JsonResponse (ErrorBody ''follow object does not match actor: '' obj) 400), s)
      else
     (case py_item activity ''actor'' of Inl e \<Rightarrow> (Inl e, s) | Inr actor_url \<Rightarrow>
     (case get_or_create_with_url E actor_url s of (Inl e, s1) \<Rightarrow> (Inl e, s1) | (Inr remote_actor, s1) \<Rightarrow>
     (case follower_get_or_create E (ra_id remote_actor) (la_id actor) s1 of
        (Inl e, s2) \<Rightarrow> (Inl e, s2)
      | (Inr f, s2) \<Rightarrow>
          (let profile_url = rq_base_uri request @ reverse_profile E (la_preferred_username actor);
               accept_data =
                 JObj [(''@context'', JArr [JStr ''https://www.w3.org/ns/activitystreams'',
                                           JStr ''https://w3id.org/security/v1'']),
                       (''id'', JStr (rq_base_uri request @ ''/'' @ uuid4 E)),
                       (''type'', JStr ''Accept''),
                       (''actor'', JStr profile_url),
                       (''object'', activity)]
           in case py_get (ra_profile remote_actor) ''inbox'' of
                Inl e \<Rightarrow> (Inl e, s2)
              | Inr inbox_url \<Rightarrow>
                  (let d = \<lparr>dl_url = inbox_url, dl_private_key = la_private_key actor,
                             dl_public_key_url = profile_url @ ''#main-key'',
                             dl_body = accept_data\<rparr>;
                       s3 = s2\<lparr>envelopes := envelopes s2 @ [accept_data], sent := sent s2 @ [d]\<rparr>
                   in if http_post E d then (Inr (JsonResponse OkBody 200), s3)
                      else (Inl HTTPError, s3)))))))))"

text \<open>The branches \<open>'Like'\<close> and \<open>'Announce'\<close> (source lines 190 to 208).\<close>

definition inbox_like :: "env \<Rightarrow> json \<Rightarrow> store \<Rightarrow> response outcome" where
  "inbox_like E activity s =
     (case py_item activity ''object'' of Inl e \<Rightarrow> (Inl e, s) | Inr obj \<Rightarrow>
     (case get_object_or_404 (filter (\<lambda>n. JStr (no_content_url n) = obj) (note_rows s)) of
        Inl e \<Rightarrow> (Inl e, s) | Inr n \<Rightarrow>
     (case py_item activity ''actor'' of Inl e \<Rightarrow> (Inl e, s) | Inr actor_url \<Rightarrow>
     (case get_or_create_with_url E actor_url s of (Inl e, s1) \<Rightarrow> (Inl e, s1) | (Inr remote_actor, s1) \<Rightarrow>
        (Inr (JsonResponse OkBody 200),
         update_note (n\<lparr>no_likes := m2m_add (ra_id remote_actor) (no_likes n)\<rparr>) s1)))))"

definition inbox_announce :: "env \<Rightarrow> json \<Rightarrow> store \<Rightarrow> response outcome" where
  "inbox_announce E activity s =
     (case py_item activity ''object'' of Inl e \<Rightarrow> (Inl e, s) | Inr obj \<Rightarrow>
     (case get_object_or_404 (filter (\<lambda>n. JStr (no_content_url n) = obj) (note_rows s)) of
        Inl e \<Rightarrow> (Inl e, s) | Inr n \<Rightarrow>
     (case py_item activity ''actor'' of Inl e \<Rightarrow> (Inl e, s) | Inr actor_url \<Rightarrow>
     (case get_or_create_with_url E actor_url s of (Inl e, s1) \<Rightarrow> (Inl e, s1) | (Inr remote_actor, s1) \<Rightarrow>
        (Inr (JsonResponse OkBody 200),
         update_note (n\<lparr>no_announces := m2m_add (ra_id remote_actor) (no_announces n)\<rparr>) s1)))))"

text \<open>The branch \<open>'Create'\<close> (source lines 210 to 216).\<close>

definition inbox_create :: "env \<Rightarrow> inbox_request \<Rightarrow> json \<Rightarrow> store \<Rightarrow> response outcome" where
  "inbox_create E request activity s =
     (case py_item activity ''object'' of Inl e \<Rightarrow> (Inl e, s) | Inr obj \<Rightarrow>
     (case py_item obj ''id'' of Inl e \<Rightarrow> (Inl e, s) | Inr obj_id \<Rightarrow>
     (case obj_id of
        JStr i \<Rightarrow>
          (if startswith i (rq_base_uri request) then (Inr (JsonResponse OkBody 200), s)
           else (case upsert_remote (recursion_limit E) E (rq_base_uri request) obj s of
                   (Inl e, s1) \<Rightarrow> (Inl e, s1)
                 | (Inr n, s1) \<Rightarrow> (Inr (JsonResponse OkBody 200), s1)))
      | _ \<Rightarrow> (Inl AttributeError, s))))"

text \<open>
  The branch \<open>'Undo'\<close> (source lines 218 to 253).
  \<open>local_actor.followers.remove(remote_actor)\<close> deletes the \<open>Follower\<close> rows of the
  pair, if there are any.
\<close>

definition inbox_undo :: "env \<Rightarrow> json \<Rightarrow> local_actor \<Rightarrow> store \<Rightarrow> response outcome" where
  "inbox_undo E activity actor s =
     (case py_item activity ''object'' of Inl e \<Rightarrow> (Inl e, s) | Inr to_undo \<Rightarrow>
     (case py_item to_undo ''type'' of Inl e \<Rightarrow> (Inl e, s) | Inr undo_type \<Rightarrow>
      if undo_type = JStr ''Follow'' then
        (case py_item to_undo ''object'' of Inl e \<Rightarrow> (Inl e, s) | Inr obj \<Rightarrow>
        (case get_by_url E obj s of Inl e \<Rightarrow> (Inl e, s) | Inr found \<Rightarrow>
        (case found of None \<Rightarrow> (Inl AttributeError, s) | Some local_actor \<Rightarrow>
         if la_id local_actor \<noteq> la_id actor
         then (Inr (JsonResponse (ErrorBody ''undo follow object does not match actor: '' obj) 400), s)
         else
        (case py_item to_undo ''actor'' of Inl e \<Rightarrow> (Inl e, s) | Inr actor_url \<Rightarrow>
        (case get_object_or_404 (filter (\<lambda>r. JStr (ra_url r) = actor_url) (remote_actors s)) of
           Inl e \<Rightarrow> (Inl e, s)
         | Inr remote_actor \<Rightarrow>
             (Inr (JsonResponse OkBody 200),
              s\<lparr>follower_rows :=
                   filter (\<lambda>f. \<not> (fo_following f = la_id local_actor
                                  \<and> fo_remote_actor f = ra_id remote_actor))
                     (follower_rows s)\<rparr>))))))
      else if undo_type = JStr ''Like'' then
        (case py_item to_undo ''object'' of Inl e \<Rightarrow> (Inl e, s) | Inr obj \<Rightarrow>
        (case get_object_or_404 (filter (\<lambda>n. JStr (no_content_url n) = obj) (note_rows s)) of
           Inl e \<Rightarrow> (Inl e, s) | Inr n \<Rightarrow>
        (case py_item to_undo ''actor'' of Inl e \<Rightarrow> (Inl e, s) | Inr actor_url \<Rightarrow>
        (case get_object_or_404 (filter (\<lambda>r. JStr (ra_url r) = actor_url) (remote_actors s)) of
           Inl e \<Rightarrow> (Inl e, s)
         | Inr remote_actor \<Rightarrow>
             (Inr (JsonResponse OkBody 200),
              update_note (n\<lparr>no_likes := m2m_remove (ra_id remote_actor) (no_likes n)\<rparr>) s)))))
      else if undo_type = JStr ''Announce'' then
        (case py_item to_undo ''object'' of Inl e \<Rightarrow> (Inl e, s) | Inr obj \<Rightarrow>
        (case get_object_or_404 (filter (\<lambda>n. JStr (no_content_url n) = obj) (note_rows s)) of
           Inl e \<Rightarrow> (Inl e, s) | Inr n \<Rightarrow>
        (case py_item to_undo ''actor'' of Inl e \<Rightarrow> (Inl e, s) | Inr actor_url \<Rightarrow>
        (case get_object_or_404 (filter (\<lambda>r. JStr (ra_url r) = actor_url) (remote_actors s)) of
           Inl e \<Rightarrow> (Inl e, s)
         | Inr remote_actor \<Rightarrow>
             (Inr (JsonResponse OkBody 200),
              update_note (n\<lparr>no_announces := m2m_remove (ra_id remote_actor) (no_announces n)\<rparr>) s)))))
      else (Inr (JsonResponse (ErrorBody ''unsupported undo type: '' undo_type) 400), s)))"

text \<open>\<open>inbox(request, username)\<close>.\<close>

definition inbox :: "env \<Rightarrow> inbox_request \<Rightarrow> string \<Rightarrow> store \<Rightarrow> response outcome" where
  "inbox E request username s =
     (if rq_method request = ''POST'' then
        (case rq_activity request of None \<Rightarrow> (Inl ValueError, s) | Some activity \<Rightarrow>
        (case rq_validate request of Some validate_resp \<Rightarrow> (Inr validate_resp, s) | None \<Rightarrow>
        (case get_row (filter (\<lambda>a. la_preferred_username a = username) (local_actors s)) of
           Inl e \<Rightarrow>
             (if e = DoesNotExist then (Inr (JsonResponse EmptyBody 404), s) else (Inl e, s))
         | Inr actor \<Rightarrow>
        (case py_item activity ''type'' of Inl e \<Rightarrow> (Inl e, s) | Inr activity_type \<Rightarrow>
         if activity_type = JStr ''Follow'' then inbox_follow E request activity actor s
         else if activity_type = JStr ''Like'' then inbox_like E activity s
         else if activity_type = JStr ''Announce'' then inbox_announce E activity s
         else if activity_type = JStr ''Create'' then inbox_create E request activity s
         else if activity_type = JStr ''Undo'' then inbox_undo E activity actor s
         else if activity_type = JStr ''Delete'' then (Inr (JsonResponse OkBody 200), s)
         else (Inr (JsonResponse (ErrorBody ''unsupported activity type: '' activity_type) 400), s)))))
      else (Inr (JsonResponse EmptyBody 405), s))"


section \<open>A sample environment and sample stores\<close>

text \<open>
  A small environment that computes, and rows for it: the node is
  \<open>https://local.example\<close> with the local actor \<open>alice\<close>; \<open>bob\<close> is a remote
  actor.
\<close>

definition sample_env :: env where
  "sample_env =
     \<lparr>http_get = (\<lambda>u. Failed),
      webfinger_get = (\<lambda>d u. if d = ''example.com'' then Json (JObj [(''links'', JArr [])]) else Failed),
      http_post = (\<lambda>d. True),
      resolve_url = (\<lambda>u. if u = ''https://local.example/pub/alice'' then ProfileMatch ''alice'' ''local.example''
                          else NoMatch),
      netloc = (\<lambda>u. takeWhile (\<lambda>c. c \<noteq> CHR ''/'') (drop 8 u)),
      reverse_profile = (\<lambda>username. ''/pub/'' @ username),
      uuid4 = ''00000000-0000-4000-8000-000000000000'',
      timezone_now = 100,
      parse_datetime = (\<lambda>t. Some 50),
      format_datetime = (\<lambda>t. ''2026-11-04T10:00:00Z''),
      timestamp = (\<lambda>t. ''100.0''),
      mention_matches = (\<lambda>c. []),
      recursion_limit = 1000\<rparr>"

definition alice :: local_actor where
  "alice = \<lparr>la_id = 1, la_preferred_username = ''alice'', la_domain = ''local.example'',
            la_private_key = ''KEY-A''\<rparr>"

definition bob :: remote_actor where
  "bob = \<lparr>ra_id = 2, ra_username = ''bob'', ra_domain = ''b.example'',
          ra_url = ''https://b.example/users/bob'',
          ra_profile = JObj [(''id'', JStr ''https://b.example/users/bob''),
                             (''preferredUsername'', JStr ''bob''),
                             (''inbox'', JStr ''https://b.example/users/bob/inbox'')]\<rparr>"

definition empty_store :: store where
  "empty_store = \<lparr>local_actors = [], remote_actors = [], follower_rows = [], note_rows = [],
                  next_id = 1, envelopes = [], sent = []\<rparr>"


definition post_request :: "json \<Rightarrow> inbox_request" where
  "post_request activity =
     \<lparr>rq_method = ''POST'', rq_activity = Some activity, rq_validate = None,
      rq_base_uri = ''https://local.example''\<rparr>"


definition alice_bob_store :: store where
  "alice_bob_store = empty_store\<lparr>local_actors := [alice], remote_actors := [bob], next_id := 3\<rparr>"

text \<open>
  The invariant of the \<open>Note\<close> rows that the authorship claim names: exactly one of
  \<open>local_actor\<close> and \<open>remote_actor\<close> is set.
\<close>

definition one_author :: "note_row \<Rightarrow> bool" where
  "one_author n = ((no_local_actor n = None) \<noteq> (no_remote_actor n = None))"

text \<open>
  A network on which \<open>https://evil.example/n/1\<close> serves a note document whose
  \<open>id\<close> is the URL of a note of \<open>alice\<close>, a store that holds that note, and a
  \<open>Create\<close> activity for the document.
\<close>

definition evil_env :: env where
  "evil_env = sample_env
     \<lparr>http_get := (\<lambda>u.
        if u = ''https://evil.example/n/1''
        then Json (JObj [(''id'', JStr ''https://local.example/notes/1''),
                         (''attributedTo'', JStr ''https://evil.example/actor''),
                         (''published'', JStr ''2026-11-04T10:00:00Z''),
                         (''content'', JStr ''overwritten'')])
        else if u = ''https://evil.example/actor''
        then Json (JObj [(''id'', JStr ''https://evil.example/actor''),
                         (''preferredUsername'', JStr ''mallory''),
                         (''inbox'', JStr ''https://evil.example/inbox'')])
        else if u = ''https://local.example/notes/1''
        then Json (JObj [(''id'', JStr ''https://local.example/notes/1''),
                         (''attributedTo'', JStr ''https://local.example/pub/alice''),
                         (''published'', JStr ''2026-11-04T10:00:00Z''),
                         (''content'', JStr ''hello'')])
        else if u = ''https://local.example/pub/alice''
        then Json (JObj [(''id'', JStr ''https://local.example/pub/alice''),
                         (''preferredUsername'', JStr ''alice'')])
        else Failed)\<rparr>"

definition local_note :: note_row where
  "local_note =
     \<lparr>no_id = 2, no_local_actor = Some 1, no_remote_actor = None, no_published_at = 10,
      no_updated_at = 10, no_content = ''hello'',
      no_content_url = ''https://local.example/notes/1'', no_parent = None,
      no_likes = [], no_announces = []\<rparr>"

definition local_note_store :: store where
  "local_note_store = empty_store\<lparr>local_actors := [alice], note_rows := [local_note], next_id := 3\<rparr>"

definition create_activity :: json where
  "create_activity =
     JObj [(''type'', JStr ''Create''),
           (''actor'', JStr ''https://evil.example/actor''),
           (''object'', JObj [(''id'', JStr ''https://evil.example/n/1''),
                              (''type'', JStr ''Note'')])]"

text \<open>
  Two stores differ at most in the cached remote actors and in the ids allotted:
  what resolving an actor may change.
\<close>

definition actors_only :: "store \<Rightarrow> store \<Rightarrow> bool" where
  "actors_only s s' =
     (local_actors s' = local_actors s \<and> follower_rows s' = follower_rows s
      \<and> note_rows s' = note_rows s \<and> envelopes s' = envelopes s \<and> sent s' = sent s
      \<and> next_id s \<le> next_id s')"

text \<open>
  What a fan-out of activities of type \<open>ty\<close> may change: remote actors are resolved
  for the mentions, at most one envelope is built, and every delivery carries an
  activity of that type.
\<close>

definition fan_out :: "string \<Rightarrow> store \<Rightarrow> store \<Rightarrow> bool" where
  "fan_out ty s s' =
     (local_actors s' = local_actors s \<and> follower_rows s' = follower_rows s
      \<and> note_rows s' = note_rows s \<and> next_id s \<le> next_id s'
      \<and> (\<exists>ms ds. envelopes s' = envelopes s @ ms \<and> sent s' = sent s @ ds \<and> length ms \<le> 1
             \<and> (\<forall>m\<in>set ms. py_get m ''type'' = Inr (JStr ty))
             \<and> (\<forall>d\<in>set ds. py_get (dl_body d) ''type'' = Inr (JStr ty))))"

text \<open>
  What the database guarantees of the \<open>Note\<close> table: the primary keys are distinct
  and were allotted before \<open>next_id\<close>, and the \<open>parent\<close> of a row is a stored row.
\<close>

definition note_keys :: "store \<Rightarrow> bool" where
  "note_keys s =
     (distinct (map no_id (note_rows s))
      \<and> (\<forall>n\<in>set (note_rows s). no_id n < next_id s)
      \<and> (\<forall>n\<in>set (note_rows s). \<forall>p. no_parent n = Some p \<longrightarrow> p \<in> no_id ` set (note_rows s)))"

text \<open>A store in which \<open>bob\<close> follows \<open>alice\<close>.\<close>

definition bob_follows :: follower where
  "bob_follows = \<lparr>fo_id = 3, fo_remote_actor = 2, fo_following = 1, fo_follow_date = 10\<rparr>"

definition followed_store :: store where
  "followed_store = alice_bob_store\<lparr>follower_rows := [bob_follows], next_id := 4\<rparr>"

text \<open>
  The invariant of the \<open>Follower\<close> table: no two rows for one pair of a remote
  actor and a local actor.
\<close>

definition unique_followers :: "store \<Rightarrow> bool" where
  "unique_followers s =
     distinct (map (\<lambda>f. (fo_remote_actor f, fo_following f)) (follower_rows s))"



section \<open>Splitting and parsing\<close>

lemma str_split_nonempty: "str_split c s \<noteq> []"
  by (induction s) (auto split: list.splits)

lemma str_split_append:
  "c \<notin> set a \<Longrightarrow> str_split c (a @ b) = (a @ hd (str_split c b)) # tl (str_split c b)"
proof (induction a)
  case Nil
  then show ?case using str_split_nonempty [of c b] by simp
next
  case (Cons x a)
  then show ?case by auto
qed

lemma str_split_none: "c \<notin> set a \<Longrightarrow> str_split c a = [a]"
  using str_split_append [of c a "[]"] by simp

lemma str_remove_append: "str_remove c (a @ b) = str_remove c a @ str_remove c b"
  by (simp add: str_remove_def)

lemma str_remove_none: "c \<notin> set a \<Longrightarrow> str_remove c a = a"
  by (induction a) (auto simp: str_remove_def)

lemma filter_neq_id: "c \<notin> set a \<Longrightarrow> filter (\<lambda>x. x \<noteq> c) a = a"
  by (induction a) auto

lemma parse_generated:
  assumes "CHR '','' \<notin> set kid" "CHR 0x22 \<notin> set kid"
      and "CHR '','' \<notin> set sg" "CHR 0x22 \<notin> set sg"
  shows \<open>parse_signature_header
           (''keyId="'' @ kid @ ''",algorithm="rsa-sha256",headers="(request-target) host date digest content-type",signature="'' @ sg @ ''"'')
         = Inr [''keyId'' \<mapsto> kid, ''algorithm'' \<mapsto> ''rsa-sha256'',
                ''headers'' \<mapsto> ''(request-target) host date digest content-type'',
                ''signature'' \<mapsto> sg]\<close>
  using assms
  by (simp add: parse_signature_header_def str_split_append str_remove_def filter_neq_id)

lemma upper_sha_prefix: "str_upper (take 4 (''SHA-256='' @ x)) @ drop 4 (''SHA-256='' @ x) = ''SHA-256='' @ x"
  by (simp add: str_upper_def upper_chr_def ascii_lowercase_def ascii_uppercase_def)

lemma signed_post_Some:
  assumes "pkcs1v15_sign L private_key (build_message (signed_post_fields L now url body)) = Inr s"
  shows \<open>signed_post L now url private_key public_key_url headers (Some body) =
     Inr \<lparr>req_url = url, req_data = Some body,
          req_headers = (case headers of None \<Rightarrow> Map.empty | Some h \<Rightarrow> h)
                         (''accept'' \<mapsto> ''application/activity+json'',
                          ''digest'' \<mapsto> ''SHA-256='' @ b64encode L (sha256 L body),
                          ''date'' \<mapsto> now,
                          ''host'' \<mapsto> url_netloc L url,
                          ''content-type'' \<mapsto> ''application/activity+json'',
                          ''signature'' \<mapsto> ''keyId="'' @ public_key_url @ ''",algorithm="rsa-sha256",headers="(request-target) host date digest content-type",signature="'' @ b64encode L s @ ''"'',
                          ''user-agent'' \<mapsto> ''shimmy's django_activitypub service - unlike mozilla'')\<rparr>\<close>
  using assms
  by (simp add: signed_post_def content_digest_sha256_def HttpSignature_build_signature_def
      sign_message_def build_signature_def with_field_def HttpSignature_def signed_post_fields_def Let_def)

lemma collect_fields_signed:
  assumes "str_lower method = ''post''"
    and "headers ''host'' = Some (url_netloc L url)" "headers ''date'' = Some now"
    and "headers ''digest'' = Some (''SHA-256='' @ b64encode L (sha256 L body))"
    and "headers ''content-type'' = Some ''application/activity+json''"
  shows "collect_fields L method url headers
           (str_split (CHR '' '') ''(request-target) host date digest content-type'') HttpSignature
         = Inr (signed_post_fields L now url body)"
  using assms by (simp add: with_field_def HttpSignature_def signed_post_fields_def)

lemma b64encode_inj:
  assumes "\<And>x. b64decode L (b64encode L x) = Some x"
  shows "b64encode L x = b64encode L y \<longleftrightarrow> x = y"
  by (metis assms option.inject)

lemma validate_signature_at_key_check:
  assumes "headers ''signature'' = Some sh" "parse_signature_header sh = Inr pm"
      and "pm ''headers'' = Some dl" "str_split (CHR '' '') dl = fl"
      and "''(request-target)'' \<in> set fl" "''date'' \<in> set fl"
      and "digest = [] \<or> ''digest'' \<in> set fl"
      and "collect_fields L method url headers fl HttpSignature = Inr builder"
      and "pm ''keyId'' = Some k"
  shows "validate_signature L self method url headers digest =
     (if key_id self \<noteq> Some k then Inr (ValidateResult_fail (KeyIdMismatch (key_id self) k))
      else case pm ''signature'' of
             None \<Rightarrow> Inl KeyError
           | Some sig64 \<Rightarrow>
               (case b64decode L sig64 of
                  None \<Rightarrow> Inl BinasciiError
                | Some signature \<Rightarrow> Inr (verify_signature L self signature (build_message builder))))"
  using assms by (auto simp add: validate_signature_def)

section \<open>The sample instance\<close>

lemma sample_b64decode_plain:
  "x \<noteq> CHR ''%'' \<Longrightarrow> sample_b64decode (x # r) = map_option (Cons x) (sample_b64decode r)"
  by (cases r) auto

lemma sample_b64_chr:
  "sample_b64decode (sample_enc_chr c @ r) = map_option (Cons c) (sample_b64decode r)"
  by (simp add: sample_enc_chr_def sample_dec_chr_def sample_b64decode_plain)

lemma sample_b64_roundtrip: "sample_b64decode (sample_b64encode x) = Some x"
  by (induction x) (simp_all add: sample_b64encode_def sample_b64_chr)

lemma sample_b64_alphabet:
  "CHR '','' \<notin> set (sample_b64encode x) \<and> CHR 0x22 \<notin> set (sample_b64encode x)"
  by (induction x) (simp_all add: sample_b64encode_def sample_enc_chr_def)

lemma sample_lib_simps:
  "sha256 sample_lib = (\<lambda>c. c)"
  "b64encode sample_lib = sample_b64encode"
  "b64decode sample_lib = sample_b64decode"
  "pkcs1v15_sign sample_lib = (\<lambda>k m. Inr (k @ m))"
  "rsa_verify sample_lib = (\<lambda>k s m. s = k @ m)"
  "ed25519_verify sample_lib = (\<lambda>k s m. s = k @ m)"
  "url_netloc sample_lib = (\<lambda>u. takeWhile (\<lambda>c. c \<noteq> CHR ''/'') (drop 8 u))"
  "url_path sample_lib = (\<lambda>u. dropWhile (\<lambda>c. c \<noteq> CHR ''/'') (drop 8 u))"
  by (simp_all add: sample_lib_def)

section \<open>Signing and verifying\<close>

text \<open>
  Claim C1. A request whose headers \<open>signed_post\<close> produced with the private key of a
  key pair, checked unmodified by \<open>validate\<close> against the matching public-key document,
  gives the success result carrying the controller; with the body alone changed, to one
  whose SHA-256 differs, \<open>validate\<close> gives the failure result with the digest-mismatch
  reason. The library is any instance in which decoding inverts encoding, the encoding
  has no comma or double quote in its alphabet, and the public key verifies what the
  private key signs; the key id has no comma or double quote, as the \<open>keyId="..."\<close>
  parameter syntax needs; the method is POST, which is the request \<open>signed_post\<close> sends.
\<close>

theorem sign_then_validate:
  fixes L :: lib and self :: signature_checker
  assumes b64_roundtrip: "\<And>x. b64decode L (b64encode L x) = Some x"
      and b64_alphabet: "\<And>x. CHR '','' \<notin> set (b64encode L x) \<and> CHR 0x22 \<notin> set (b64encode L x)"
      and key_pair: "\<And>m. \<exists>s. pkcs1v15_sign L private_key m = Inr s \<and> rsa_verify L pk s m"
      and checker: "public_key self = RSAPublicKey pk" "key_id self = Some public_key_url"
      and kid: "CHR '','' \<notin> set public_key_url" "CHR 0x22 \<notin> set public_key_url"
      and is_post: "str_lower method = ''post''"
  shows "\<exists>rq. signed_post L now url private_key public_key_url headers (Some body) = Inr rq
            \<and> validate L self method url (req_headers rq) (Some body)
                = Inr (ValidateResult_success (controller self))
            \<and> (sha256 L body' \<noteq> sha256 L body \<longrightarrow>
                 validate L self method url (req_headers rq) (Some body')
                 = Inr (ValidateResult_fail
                     (DigestMismatch (''SHA-256='' @ b64encode L (sha256 L body'))
                                     (''SHA-256='' @ b64encode L (sha256 L body)))))"
proof -
  define m where "m = build_message (signed_post_fields L now url body)"
  obtain s where s: "pkcs1v15_sign L private_key m = Inr s" and v: "rsa_verify L pk s m"
    using key_pair by blast
  define sg where "sg = b64encode L s"
  define hs where "hs = (case headers of None \<Rightarrow> Map.empty | Some h \<Rightarrow> h)
                         (''accept'' \<mapsto> ''application/activity+json'',
                          ''digest'' \<mapsto> ''SHA-256='' @ b64encode L (sha256 L body),
                          ''date'' \<mapsto> now,
                          ''host'' \<mapsto> url_netloc L url,
                          ''content-type'' \<mapsto> ''application/activity+json'',
                          ''signature'' \<mapsto> ''keyId=\"'' @ public_key_url @ ''\",algorithm=\"rsa-sha256\",headers=\"(request-target) host date digest content-type\",signature=\"'' @ sg @ ''\"'',
                          ''user-agent'' \<mapsto> ''shimmy's django_activitypub service - unlike mozilla'')"
  have sp: "signed_post L now url private_key public_key_url headers (Some body)
            = Inr \<lparr>req_url = url, req_data = Some body, req_headers = hs\<rparr>"
    using signed_post_Some [of L private_key now url body s public_key_url headers] s
    unfolding m_def hs_def sg_def by simp
  have h_sig: "hs ''signature'' = Some (''keyId=\"'' @ public_key_url @ ''\",algorithm=\"rsa-sha256\",headers=\"(request-target) host date digest content-type\",signature=\"'' @ sg @ ''\"'')"
    and h_dig: "hs ''digest'' = Some (''SHA-256='' @ b64encode L (sha256 L body))"
    and h_host: "hs ''host'' = Some (url_netloc L url)"
    and h_date: "hs ''date'' = Some now"
    and h_ct: "hs ''content-type'' = Some ''application/activity+json''"
    by (simp_all add: hs_def)
  have sg_ok: "CHR '','' \<notin> set sg" "CHR 0x22 \<notin> set sg"
    using b64_alphabet [of s] by (simp_all add: sg_def)
  define sigh where "sigh = ''keyId=\"'' @ public_key_url @ ''\",algorithm=\"rsa-sha256\",headers=\"(request-target) host date digest content-type\",signature=\"'' @ sg @ ''\"''"
  define pm where "pm = [''keyId'' \<mapsto> public_key_url, ''algorithm'' \<mapsto> ''rsa-sha256'',
                ''headers'' \<mapsto> ''(request-target) host date digest content-type'',
                ''signature'' \<mapsto> sg]"
  define fl where "fl = str_split (CHR '' '') ''(request-target) host date digest content-type''"
  have h_sig': "hs ''signature'' = Some sigh"
    using h_sig by (simp add: sigh_def)
  have parsed: "parse_signature_header sigh = Inr pm"
    using parse_generated [OF kid sg_ok] by (simp add: sigh_def pm_def)
  have pm_headers: "pm ''headers'' = Some ''(request-target) host date digest content-type''"
    and pm_key: "pm ''keyId'' = Some public_key_url"
    and pm_sig: "pm ''signature'' = Some sg"
    by (simp_all add: pm_def)
  have cf: "collect_fields L method url hs fl HttpSignature = Inr (signed_post_fields L now url body)"
    unfolding fl_def by (rule collect_fields_signed [OF is_post h_host h_date h_dig h_ct])
  have fl_mem: "''(request-target)'' \<in> set fl" "''date'' \<in> set fl" "''digest'' \<in> set fl"
    by (simp_all add: fl_def)
  have vs: "validate_signature L self method url hs (''SHA-256='' @ b64encode L (sha256 L body))
            = Inr (ValidateResult_success (controller self))"
    using validate_signature_at_key_check [OF h_sig' parsed pm_headers fl_def [symmetric]
        fl_mem(1) fl_mem(2) disjI2 [OF fl_mem(3)] cf pm_key, of self "''SHA-256='' @ b64encode L (sha256 L body)"]
      v checker b64_roundtrip [of s]
    by (simp add: pm_sig verify_signature_def m_def [symmetric] sg_def [symmetric])
  have in_dom: "''signature'' \<in> dom hs" using h_sig by blast
  have v1: "validate L self method url hs (Some body) = Inr (ValidateResult_success (controller self))"
    using in_dom is_post h_dig vs upper_sha_prefix [of "b64encode L (sha256 L body)"]
    by (simp add: validate_def content_digest_sha256_def)
  have v2: "sha256 L body' \<noteq> sha256 L body \<Longrightarrow>
      validate L self method url hs (Some body')
        = Inr (ValidateResult_fail
                     (DigestMismatch (''SHA-256='' @ b64encode L (sha256 L body'))
                                     (''SHA-256='' @ b64encode L (sha256 L body))))"
    using in_dom is_post h_dig upper_sha_prefix [of "b64encode L (sha256 L body)"]
      b64encode_inj [OF b64_roundtrip, of "sha256 L body'" "sha256 L body"]
    by (simp add: validate_def content_digest_sha256_def)
  show ?thesis using sp v1 v2 by simp
qed

theorem sign_then_validate_witness:
  "\<exists>rq. signed_post sample_lib sample_now sample_url sample_key sample_key_id None (Some ''{}'') = Inr rq
     \<and> validate sample_lib sample_checker ''post'' sample_url (req_headers rq) (Some ''{}'')
         = Inr (ValidateResult_success (Some ''https://a.example/pub/alice''))
     \<and> validate sample_lib sample_checker ''post'' sample_url (req_headers rq) (Some ''{x}'')
         = Inr (ValidateResult_fail (DigestMismatch ''SHA-256={x}'' ''SHA-256={}''))"
proof -
  have h1: "\<And>x. b64decode sample_lib (b64encode sample_lib x) = Some x"
    by (simp add: sample_lib_simps sample_b64_roundtrip)
  have h2: "\<And>x. CHR '','' \<notin> set (b64encode sample_lib x) \<and> CHR 0x22 \<notin> set (b64encode sample_lib x)"
    by (simp add: sample_lib_simps sample_b64_alphabet)
  have h3: "\<And>m. \<exists>s. pkcs1v15_sign sample_lib sample_key m = Inr s \<and> rsa_verify sample_lib sample_key s m"
    by (simp add: sample_lib_simps)
  have h4: "public_key sample_checker = RSAPublicKey sample_key"
    and h5: "key_id sample_checker = Some sample_key_id"
    by (simp_all add: sample_checker_def)
  have h6: "CHR '','' \<notin> set sample_key_id" and h7: "CHR 0x22 \<notin> set sample_key_id"
    by (simp_all add: sample_key_id_def)
  have h8: "str_lower ''post'' = ''post''"
    by (simp add: str_lower_def lower_chr_def ascii_lowercase_def ascii_uppercase_def)
  have h9: "sha256 sample_lib ''{x}'' \<noteq> sha256 sample_lib ''{}''"
    by (simp add: sample_lib_simps)
  from sign_then_validate [OF h1 h2 h3 h4 h5 h6 h7 h8, of sample_now sample_url None "''{}''" "''{x}''"] h9
  show ?thesis
    by (simp add: sample_lib_simps sample_b64encode_def sample_enc_chr_def sample_checker_def)
qed

lemma str_lower_post: "str_lower ''post'' = ''post''"
  by (simp add: str_lower_def lower_chr_def ascii_lowercase_def ascii_uppercase_def)

lemma str_lower_get: "str_lower ''get'' = ''get''"
  by (simp add: str_lower_def lower_chr_def ascii_lowercase_def ascii_uppercase_def)

lemma success_not_fail: "ValidateResult_success i \<noteq> ValidateResult_fail e"
  by (simp add: ValidateResult_success_def ValidateResult_fail_def)

lemma collect_fields_total:
  "\<forall>f\<in>set fl. f = ''(request-target)'' \<or> f \<in> dom headers
   \<Longrightarrow> \<exists>b. collect_fields L method url headers fl builder = Inr b"
  by (induction fl arbitrary: builder) (auto split: option.splits)

lemmas sample_eval =
  validate_def validate_signature_def parse_signature_header_def str_remove_def with_field_def
  HttpSignature_def sample_checker_def sample_key_id_def sample_lib_simps signed_post_def
  content_digest_sha256_def HttpSignature_build_signature_def sign_message_def build_signature_def
  build_message_def sample_url_def sample_now_def sample_key_def sample_b64encode_def
  sample_enc_chr_def sample_dec_chr_def verify_signature_def ValidateResult_success_def
  ValidateResult_fail_def str_upper_def upper_chr_def ascii_lowercase_def ascii_uppercase_def
  Let_def

section \<open>Malformed requests\<close>

text \<open>
  Claim C2. \<open>validate\<close> does not turn every malformed request into the failure
  result: it raises \<open>IndexError\<close> on a Signature parameter without the \<open>="\<close>
  separator, \<open>KeyError\<close> on a declared field that the request does not carry and on a
  POST without a digest header, and \<open>binascii.Error\<close> on signature bytes that do not
  decode. The first three hold for every library instance, checker, URL and body; the
  last is evaluated on the sample instance, whose decoder rejects a lone percent sign.
\<close>

theorem validate_lets_exceptions_escape:
  \<open>validate L self ''get'' url [''signature'' \<mapsto> ''keyId''] body = Inl IndexError
   \<and> validate L self ''get'' url
        [''signature'' \<mapsto> ''keyId="k",headers="(request-target) date"''] body = Inl KeyError
   \<and> validate L self ''post'' url [''signature'' \<mapsto> sg] (Some content) = Inl KeyError
   \<and> validate sample_lib sample_checker ''get'' sample_url
        [''signature'' \<mapsto> ''keyId="https://a.example/pub/alice#main-key",headers="(request-target) date",signature="%"'',
         ''date'' \<mapsto> sample_now] body = Inl BinasciiError\<close>
proof -
  have a: \<open>validate L self ''get'' url [''signature'' \<mapsto> ''keyId''] body = Inl IndexError\<close>
    by (simp add: validate_def str_lower_get validate_signature_def parse_signature_header_def)
  have b: \<open>validate L self ''get'' url
        [''signature'' \<mapsto> ''keyId="k",headers="(request-target) date"''] body = Inl KeyError\<close>
    by (simp add: validate_def str_lower_get validate_signature_def parse_signature_header_def
        str_remove_def with_field_def HttpSignature_def)
  have c: "validate L self ''post'' url [''signature'' \<mapsto> sg] (Some content) = Inl KeyError"
    by (simp add: validate_def str_lower_post content_digest_sha256_def)
  have d: \<open>validate sample_lib sample_checker ''get'' sample_url
        [''signature'' \<mapsto> ''keyId="https://a.example/pub/alice#main-key",headers="(request-target) date",signature="%"'',
         ''date'' \<mapsto> sample_now] body = Inl BinasciiError\<close>
    by (simp add: validate_def str_lower_get validate_signature_def parse_signature_header_def
        str_remove_def with_field_def HttpSignature_def sample_checker_def sample_key_id_def
        sample_lib_simps)
  show ?thesis using a b c d by simp
qed

section \<open>The digest check\<close>




section \<open>Key id binding\<close>

text \<open>
  Claim C4. The claim is that every request whose Signature header declares a
  \<open>keyId\<close> other than the key id of the checker gets the failure result.
  \<open>validate\<close> compares the key ids (source line 175) only after it has read
  \<open>headers['digest']\<close> of a POST (line 149) and \<open>headers[field]\<close> of every
  declared field (line 173), and these look-ups are not guarded. A GET whose Signature
  header declares the key id \<open>wrong\<close> and the fields \<open>(request-target) date\<close>,
  without a date header, and a POST with that Signature header and no digest header,
  both raise \<open>KeyError\<close>, for every library instance, URL and body: no result is
  returned.
\<close>

theorem key_id_mismatch_raises:
  \<open>(\<exists>pm. parse_signature_header ''keyId="wrong",headers="(request-target) date",signature="AAAA"'' = Inr pm
          \<and> pm ''keyId'' = Some ''wrong'')
   \<and> key_id sample_checker \<noteq> Some ''wrong''
   \<and> validate L sample_checker ''get'' url
        [''signature'' \<mapsto> ''keyId="wrong",headers="(request-target) date",signature="AAAA"''] body
       = Inl KeyError
   \<and> validate L sample_checker ''post'' url
        [''signature'' \<mapsto> ''keyId="wrong",headers="(request-target) date",signature="AAAA"'']
        (Some content)
       = Inl KeyError\<close>
proof -
  have a: \<open>\<exists>pm. parse_signature_header ''keyId="wrong",headers="(request-target) date",signature="AAAA"'' = Inr pm
          \<and> pm ''keyId'' = Some ''wrong''\<close>
    by (simp add: parse_signature_header_def str_remove_def)
  have b: "key_id sample_checker \<noteq> Some ''wrong''"
    by (simp add: sample_checker_def sample_key_id_def)
  have c: \<open>validate L sample_checker ''get'' url
        [''signature'' \<mapsto> ''keyId="wrong",headers="(request-target) date",signature="AAAA"''] body
       = Inl KeyError\<close>
    by (simp add: validate_def str_lower_get validate_signature_def parse_signature_header_def
        str_remove_def with_field_def HttpSignature_def)
  have d: \<open>validate L sample_checker ''post'' url
        [''signature'' \<mapsto> ''keyId="wrong",headers="(request-target) date",signature="AAAA"'']
        (Some content)
       = Inl KeyError\<close>
    by (simp add: validate_def str_lower_post content_digest_sha256_def)
  show ?thesis using a b c d by (intro conjI)
qed

text \<open>
  What does hold of a declared \<open>keyId\<close> that differs from the key id of the checker:
  \<open>validate\<close> never returns the success result, whatever the signature bytes are;
  and on every request whose header look-ups are defined (a POST has a body and a digest
  header, the Signature header has a \<open>headers\<close> parameter, and every declared field
  other than \<open>(request-target)\<close> is a header of the request) it returns the failure
  result.
\<close>

theorem key_id_mismatch_never_success:
  assumes sg: "headers ''signature'' = Some sh"
      and parsed: "parse_signature_header sh = Inr pm"
      and kid: "pm ''keyId'' = Some k"
      and differs: "key_id self \<noteq> Some k"
  shows "(\<forall>ident. validate L self http_method url headers body \<noteq> Inr (ValidateResult_success ident))
       \<and> ((str_lower http_method = ''post'' \<longrightarrow> body \<noteq> None \<and> ''digest'' \<in> dom headers)
            \<and> pm ''headers'' = Some declared
            \<and> (\<forall>f\<in>set (str_split (CHR '' '') declared). f = ''(request-target)'' \<or> f \<in> dom headers)
           \<longrightarrow> (\<exists>e. validate L self http_method url headers body = Inr (ValidateResult_fail e)))"
proof -
  have vs_never: "validate_signature L self http_method url headers d \<noteq> Inr (ValidateResult_success ident)"
    for d ident
    using sg parsed kid differs
    by (auto simp: validate_signature_def Let_def success_not_fail [symmetric]
        split: option.splits sum.splits)
  have never: "validate L self http_method url headers body \<noteq> Inr (ValidateResult_success ident)"
    for ident
    using vs_never
    by (auto simp: validate_def Let_def success_not_fail [symmetric]
        split: option.splits sum.splits)
  have vs_fail: "\<exists>e. validate_signature L self http_method url headers d = Inr (ValidateResult_fail e)"
    if hd: "pm ''headers'' = Some declared"
      and all: "\<forall>f\<in>set (str_split (CHR '' '') declared). f = ''(request-target)'' \<or> f \<in> dom headers"
    for d
  proof -
    obtain b where b: "collect_fields L http_method url headers (str_split (CHR '' '') declared) HttpSignature = Inr b"
      using collect_fields_total [OF all] by blast
    show ?thesis
      using sg parsed kid differs hd b
      by (auto simp add: validate_signature_def Let_def)
  qed
  have fails: "\<exists>e. validate L self http_method url headers body = Inr (ValidateResult_fail e)"
    if p: "str_lower http_method = ''post'' \<longrightarrow> body \<noteq> None \<and> ''digest'' \<in> dom headers"
      and hd: "pm ''headers'' = Some declared"
      and all: "\<forall>f\<in>set (str_split (CHR '' '') declared). f = ''(request-target)'' \<or> f \<in> dom headers"
  proof (cases "str_lower http_method = ''post''")
    case True
    then obtain c rd where c: "body = Some c" and rd: "headers ''digest'' = Some rd"
      using p by auto
    have in_dom: "''signature'' \<in> dom headers" using sg by blast
    show ?thesis
      using vs_fail [OF hd all] in_dom True c rd
      by (auto simp add: validate_def content_digest_sha256_def Let_def)
  next
    case False
    have in_dom: "''signature'' \<in> dom headers" using sg by blast
    show ?thesis
      using vs_fail [OF hd all] in_dom False by (simp add: validate_def)
  qed
  show ?thesis using never fails by blast
qed

theorem key_id_mismatch_never_success_witness:
  "(case signed_post sample_lib sample_now sample_url sample_key sample_key_id None (Some ''{}'') of
      Inl e \<Rightarrow> False
    | Inr rq \<Rightarrow>
        validate sample_lib sample_checker ''post'' sample_url (req_headers rq) (Some ''{}'')
          = Inr (ValidateResult_success (Some ''https://a.example/pub/alice''))
        \<and> (\<forall>ident. validate sample_lib other_checker ''post'' sample_url (req_headers rq) (Some ''{}'')
               \<noteq> Inr (ValidateResult_success ident))
        \<and> (\<exists>e. validate sample_lib other_checker ''post'' sample_url (req_headers rq) (Some ''{}'')
               = Inr (ValidateResult_fail e)))"
proof -
  define sg where "sg = b64encode sample_lib
     (sample_key @ build_message (signed_post_fields sample_lib sample_now sample_url ''{}''))"
  define sh where "sh = ''keyId=\"'' @ sample_key_id @ ''\",algorithm=\"rsa-sha256\",headers=\"(request-target) host date digest content-type\",signature=\"'' @ sg @ ''\"''"
  define hs where "hs = Map.empty
                         (''accept'' \<mapsto> ''application/activity+json'',
                          ''digest'' \<mapsto> ''SHA-256='' @ b64encode sample_lib (sha256 sample_lib ''{}''),
                          ''date'' \<mapsto> sample_now,
                          ''host'' \<mapsto> url_netloc sample_lib sample_url,
                          ''content-type'' \<mapsto> ''application/activity+json'',
                          ''signature'' \<mapsto> sh,
                          ''user-agent'' \<mapsto> ''shimmy's django_activitypub service - unlike mozilla'')"
  define pm where "pm = [''keyId'' \<mapsto> sample_key_id, ''algorithm'' \<mapsto> ''rsa-sha256'',
                ''headers'' \<mapsto> ''(request-target) host date digest content-type'',
                ''signature'' \<mapsto> sg]"
  have sp: "signed_post sample_lib sample_now sample_url sample_key sample_key_id None (Some ''{}'')
            = Inr \<lparr>req_url = sample_url, req_data = Some ''{}'', req_headers = hs\<rparr>"
    using signed_post_Some [of sample_lib sample_key sample_now sample_url "''{}''"
        "sample_key @ build_message (signed_post_fields sample_lib sample_now sample_url ''{}'')"
        sample_key_id None]
    by (simp add: hs_def sh_def sg_def sample_lib_simps)
  have sg_ok: "CHR '','' \<notin> set sg" "CHR 0x22 \<notin> set sg"
    using sample_b64_alphabet by (simp_all add: sg_def sample_lib_simps)
  have kid_ok: "CHR '','' \<notin> set sample_key_id" "CHR 0x22 \<notin> set sample_key_id"
    by (simp_all add: sample_key_id_def)
  have h1: "hs ''signature'' = Some sh" by (simp add: hs_def)
  have h2: "parse_signature_header sh = Inr pm"
    using parse_generated [OF kid_ok sg_ok] by (simp add: sh_def pm_def)
  have h3: "pm ''keyId'' = Some sample_key_id" by (simp add: pm_def)
  have h4: "key_id other_checker \<noteq> Some sample_key_id"
    by (simp add: other_checker_def sample_key_id_def)
  have h5: "str_lower ''post'' = ''post'' \<longrightarrow> Some ''{}'' \<noteq> None \<and> ''digest'' \<in> dom hs"
    by (simp add: hs_def)
  have h6: "pm ''headers'' = Some ''(request-target) host date digest content-type''"
    by (simp add: pm_def)
  have h7: "\<forall>f\<in>set (str_split (CHR '' '') ''(request-target) host date digest content-type'').
              f = ''(request-target)'' \<or> f \<in> dom hs"
    by (simp add: hs_def)
  have ok: "validate sample_lib sample_checker ''post'' sample_url hs (Some ''{}'')
          = Inr (ValidateResult_success (Some ''https://a.example/pub/alice''))"
    by (simp add: hs_def sh_def sg_def signed_post_fields_def sample_eval str_lower_post)
  from key_id_mismatch_never_success [where headers = hs and sh = sh and pm = pm and k = sample_key_id
      and self = other_checker and L = sample_lib and http_method = "''post''" and url = sample_url
      and body = "Some ''{}''" and declared = "''(request-target) host date digest content-type''",
      OF h1 h2 h3 h4] h5 h6 h7 ok sp
  show ?thesis by simp
qed

section \<open>Signing with and without a body\<close>

text \<open>
  Claim C9, as amended. For every signing request with a body (the empty body
  included) whose private key signs, \<open>signed_post\<close> completes; the signed string is
  built from \<open>(request-target)\<close>, \<open>host\<close>, \<open>date\<close>, \<open>digest\<close> and
  \<open>content-type\<close>, in this order, and the produced headers include \<open>digest\<close> and
  \<open>content-type\<close>: no field is left out.
\<close>

theorem signed_post_signs_digest:
  assumes "pkcs1v15_sign L private_key
             (build_message
               [(''(request-target)'', ''post '' @ url_path L url),
                (''host'', url_netloc L url),
                (''date'', now),
                (''digest'', ''SHA-256='' @ b64encode L (sha256 L body)),
                (''content-type'', ''application/activity+json'')]) = Inr s"
  shows "\<exists>rq. signed_post L now url private_key public_key_url headers (Some body) = Inr rq
      \<and> req_data rq = Some body
      \<and> req_headers rq ''host'' = Some (url_netloc L url)
      \<and> req_headers rq ''date'' = Some now
      \<and> req_headers rq ''digest'' = Some (''SHA-256='' @ b64encode L (sha256 L body))
      \<and> req_headers rq ''content-type'' = Some ''application/activity+json''
      \<and> req_headers rq ''signature'' =
           Some (''keyId=\"'' @ public_key_url
                 @ ''\",algorithm=\"rsa-sha256\",headers=\"(request-target) host date digest content-type\",signature=\"''
                 @ b64encode L s @ ''\"'')"
  using signed_post_Some [of L private_key now url body s public_key_url headers] assms
  by (simp add: signed_post_fields_def)

theorem signed_post_signs_digest_witness:
  "\<exists>rq. signed_post sample_lib sample_now sample_url sample_key sample_key_id None (Some '''') = Inr rq
      \<and> req_data rq = Some ''''
      \<and> req_headers rq ''host'' = Some ''b.example''
      \<and> req_headers rq ''date'' = Some sample_now
      \<and> req_headers rq ''digest'' = Some ''SHA-256=''
      \<and> req_headers rq ''content-type'' = Some ''application/activity+json''
      \<and> req_headers rq ''signature'' =
           Some (''keyId=\"https://a.example/pub/alice#main-key\",algorithm=\"rsa-sha256\",headers=\"(request-target) host date digest content-type\",signature=\"''
                 @ sample_b64encode (sample_key @ build_message
               [(''(request-target)'', ''post /pub/bob/inbox''),
                (''host'', ''b.example''),
                (''date'', sample_now),
                (''digest'', ''SHA-256=''),
                (''content-type'', ''application/activity+json'')]) @ ''\"'')"
proof -
  have h: "pkcs1v15_sign sample_lib sample_key
             (build_message
               [(''(request-target)'', ''post '' @ url_path sample_lib sample_url),
                (''host'', url_netloc sample_lib sample_url),
                (''date'', sample_now),
                (''digest'', ''SHA-256='' @ b64encode sample_lib (sha256 sample_lib '''')),
                (''content-type'', ''application/activity+json'')])
           = Inr (sample_key @ build_message
               [(''(request-target)'', ''post /pub/bob/inbox''),
                (''host'', ''b.example''),
                (''date'', sample_now),
                (''digest'', ''SHA-256=''),
                (''content-type'', ''application/activity+json'')])"
    by (simp add: sample_lib_simps sample_url_def sample_b64encode_def)
  from signed_post_signs_digest [OF h, where public_key_url = sample_key_id and headers = None]
  show ?thesis
    by (simp add: sample_lib_simps sample_url_def sample_b64encode_def sample_key_id_def)
qed

text \<open>
  The claim C9 as stated fails: with no body (\<open>body=None\<close>, the default)
  \<open>signed_post\<close> raises \<open>TypeError\<close> in \<open>content_digest_sha256\<close> and produces
  no header at all; with the empty body it signs and sends the digest and the
  content type like for any other body.
\<close>

theorem signed_post_no_body_counterexample:
  "signed_post sample_lib sample_now sample_url sample_key sample_key_id None None = Inl TypeError
   \<and> (case signed_post sample_lib sample_now sample_url sample_key sample_key_id None (Some '''') of
        Inl e \<Rightarrow> False
      | Inr rq \<Rightarrow>
          req_headers rq ''digest'' = Some ''SHA-256=''
          \<and> req_headers rq ''content-type'' = Some ''application/activity+json'')"
  by (simp add: sample_eval)

section \<open>Resolving a handle with no profile link\<close>

text \<open>
  Claim C8. The claim is that a handle whose WebFinger document has no usable self link
  resolves to a "no profile" result without raising. \<open>finger\<close> does return a
  document whose \<open>profile\<close> is \<open>None\<close>, but that document always has the key
  \<open>profile\<close>, so the test \<open>'profile' not in data\<close> of
  \<open>get_or_create_with_username_domain\<close> never holds and the next line calls
  \<open>None.get('id')\<close>: for every handle that is not cached and whose links hold no self
  link of type \<open>application/activity+json\<close>, resolution by handle raises
  \<open>AttributeError\<close> and leaves the store as it was.
\<close>

theorem no_profile_raises:
  assumes wf: "webfinger_get E domain username = Json (JObj kvs)"
      and links: "map_of kvs ''links'' = Some (JArr ls)"
      and none: "first_self_link ls = Inr JNull"
      and unknown: "filter (\<lambda>r. ra_username r = username \<and> ra_domain r = domain) (remote_actors s) = []"
  shows "finger E username domain = Inr (JObj [(''webfinger'', JObj kvs), (''profile'', JNull)])
       \<and> get_or_create_with_username_domain E username domain s = (Inl AttributeError, s)"
proof -
  have f: "finger E username domain = Inr (JObj [(''webfinger'', JObj kvs), (''profile'', JNull)])"
    by (simp add: finger_def wf links none)
  have g: "get_or_create_with_username_domain E username domain s = (Inl AttributeError, s)"
    by (simp add: get_or_create_with_username_domain_def unknown get_row_def f py_in_def
        py_item_def py_get_def)
  show ?thesis using f g by simp
qed

theorem no_profile_raises_witness:
  "finger sample_env ''foo'' ''example.com''
     = Inr (JObj [(''webfinger'', JObj [(''links'', JArr [])]), (''profile'', JNull)])
   \<and> get_or_create_with_username_domain sample_env ''foo'' ''example.com'' empty_store
     = (Inl AttributeError, empty_store)"
proof -
  have h1: "webfinger_get sample_env ''example.com'' ''foo'' = Json (JObj [(''links'', JArr [])])"
    by (simp add: sample_env_def)
  have h2: "map_of [(''links'', JArr [])] ''links'' = Some (JArr [])" by simp
  have h3: "first_self_link [] = Inr JNull" by simp
  have h4: "filter (\<lambda>r. ra_username r = ''foo'' \<and> ra_domain r = ''example.com'')
              (remote_actors empty_store) = []"
    by (simp add: empty_store_def)
  from no_profile_raises [OF h1 h2 h3 h4] show ?thesis by simp
qed

section \<open>Undoing a follow that was never made\<close>


lemma filter_singleton:
  "filter P xs = [r] \<Longrightarrow> r \<in> set xs \<and> P r"
proof -
  assume a: "filter P xs = [r]"
  have "r \<in> set (filter P xs)" by (simp add: a)
  then show ?thesis by simp
qed






section \<open>Authorship of a note\<close>

lemma evil_env_simps:
  "http_get evil_env ''https://evil.example/n/1''
     = Json (JObj [(''id'', JStr ''https://local.example/notes/1''),
                   (''attributedTo'', JStr ''https://evil.example/actor''),
                   (''published'', JStr ''2026-11-04T10:00:00Z''),
                   (''content'', JStr ''overwritten'')])"
  "http_get evil_env ''https://evil.example/actor''
     = Json (JObj [(''id'', JStr ''https://evil.example/actor''),
                   (''preferredUsername'', JStr ''mallory''),
                   (''inbox'', JStr ''https://evil.example/inbox'')])"
  "http_get evil_env ''https://local.example/notes/1''
     = Json (JObj [(''id'', JStr ''https://local.example/notes/1''),
                   (''attributedTo'', JStr ''https://local.example/pub/alice''),
                   (''published'', JStr ''2026-11-04T10:00:00Z''),
                   (''content'', JStr ''hello'')])"
  "http_get evil_env ''https://local.example/pub/alice''
     = Json (JObj [(''id'', JStr ''https://local.example/pub/alice''),
                   (''preferredUsername'', JStr ''alice'')])"
  "timezone_now evil_env = 100" "parse_datetime evil_env t = Some 50" "recursion_limit evil_env = 1000"
  "netloc evil_env ''https://evil.example/actor'' = ''evil.example''"
  "netloc evil_env ''https://local.example/pub/alice'' = ''local.example''"
  by (simp_all add: evil_env_def sample_env_def)

lemma local_note_store_simps:
  "local_actors local_note_store = [alice]" "remote_actors local_note_store = []"
  "note_rows local_note_store = [local_note]" "next_id local_note_store = 3"
  "follower_rows local_note_store = []"
  by (simp_all add: local_note_store_def empty_store_def)

lemma local_note_simps:
  "no_content_url local_note = ''https://local.example/notes/1''"
  "no_local_actor local_note = Some 1" "no_remote_actor local_note = None" "no_id local_note = 2"
  by (simp_all add: local_note_def)

lemma t1: "py_item (JObj [(''id'', JStr ''https://evil.example/n/1''), (''type'', JStr ''Note'')]) ''id'' = Inr (JStr ''https://evil.example/n/1'')"
  by (simp add: py_item_def)

lemma t2: "get_object evil_env (JStr ''https://evil.example/n/1'') = Inr (JObj [(''id'', JStr ''https://local.example/notes/1''),
                   (''attributedTo'', JStr ''https://evil.example/actor''),
                   (''published'', JStr ''2026-11-04T10:00:00Z''),
                   (''content'', JStr ''overwritten'')])"
  by (simp add: get_object_def evil_env_simps)

lemma t3: "lookup_note (JStr ''https://local.example/notes/1'') local_note_store = Inr (Some local_note)"
  by (simp add: lookup_note_def get_row_def local_note_store_simps local_note_simps)

lemma t4: "get_or_create_with_url evil_env (JStr ''https://evil.example/actor'') local_note_store
   = (Inr \<lparr>ra_id = 3, ra_username = ''mallory'', ra_domain = ''evil.example'',
             ra_url = ''https://evil.example/actor'',
             ra_profile = JObj [(''id'', JStr ''https://evil.example/actor''),
                                (''preferredUsername'', JStr ''mallory''),
                                (''inbox'', JStr ''https://evil.example/inbox'')]\<rparr>,
      local_note_store\<lparr>remote_actors :=
           [\<lparr>ra_id = 3, ra_username = ''mallory'', ra_domain = ''evil.example'',
             ra_url = ''https://evil.example/actor'',
             ra_profile = JObj [(''id'', JStr ''https://evil.example/actor''),
                                (''preferredUsername'', JStr ''mallory''),
                                (''inbox'', JStr ''https://evil.example/inbox'')]\<rparr>],
         next_id := 4\<rparr>)"
  by (simp add: get_or_create_with_url_def get_row_def fetch_remote_profile_def py_get_def
      create_remote_actor_def evil_env_simps local_note_store_simps Let_def)

lemma evil_upsert_Suc:
  "upsert_remote (Suc d) evil_env ''https://local.example''
      (JObj [(''id'', JStr ''https://evil.example/n/1''), (''type'', JStr ''Note'')]) local_note_store
   = (Inr (local_note\<lparr>no_remote_actor := Some 3, no_published_at := 50, no_updated_at := 100,
                      no_content := ''overwritten'',
                      no_content_url := ''https://evil.example/n/1''\<rparr>),
      local_note_store
        \<lparr>remote_actors :=
           [\<lparr>ra_id = 3, ra_username = ''mallory'', ra_domain = ''evil.example'',
             ra_url = ''https://evil.example/actor'',
             ra_profile = JObj [(''id'', JStr ''https://evil.example/actor''),
                                (''preferredUsername'', JStr ''mallory''),
                                (''inbox'', JStr ''https://evil.example/inbox'')]\<rparr>],
         next_id := 4,
         note_rows := [local_note\<lparr>no_remote_actor := Some 3, no_published_at := 50,
                                   no_updated_at := 100, no_content := ''overwritten'',
                                   no_content_url := ''https://evil.example/n/1''\<rparr>]\<rparr>)"
  by (simp add: t1 t2 t3 t4 py_item_def py_get_def parse_datetime_value_def py_truthy_def
      evil_env_simps update_note_def local_note_store_simps local_note_simps Let_def)

lemma evil_upsert:
  assumes "0 < d"
  shows "upsert_remote d evil_env ''https://local.example''
      (JObj [(''id'', JStr ''https://evil.example/n/1''), (''type'', JStr ''Note'')]) local_note_store
   = (Inr (local_note\<lparr>no_remote_actor := Some 3, no_published_at := 50, no_updated_at := 100,
                      no_content := ''overwritten'',
                      no_content_url := ''https://evil.example/n/1''\<rparr>),
      local_note_store
        \<lparr>remote_actors :=
           [\<lparr>ra_id = 3, ra_username = ''mallory'', ra_domain = ''evil.example'',
             ra_url = ''https://evil.example/actor'',
             ra_profile = JObj [(''id'', JStr ''https://evil.example/actor''),
                                (''preferredUsername'', JStr ''mallory''),
                                (''inbox'', JStr ''https://evil.example/inbox'')]\<rparr>],
         next_id := 4,
         note_rows := [local_note\<lparr>no_remote_actor := Some 3, no_published_at := 50,
                                   no_updated_at := 100, no_content := ''overwritten'',
                                   no_content_url := ''https://evil.example/n/1''\<rparr>]\<rparr>)"
proof -
  obtain k where "d = Suc k" using assms by (cases d) auto
  then show ?thesis by (simp only: evil_upsert_Suc)
qed

lemma u2: "get_object evil_env (JStr ''https://local.example/notes/1'')
   = Inr (JObj [(''id'', JStr ''https://local.example/notes/1''),
                (''attributedTo'', JStr ''https://local.example/pub/alice''),
                (''published'', JStr ''2026-11-04T10:00:00Z''),
                (''content'', JStr ''hello'')])"
  by (simp add: get_object_def evil_env_simps)

lemma u4: "get_or_create_with_url evil_env (JStr ''https://local.example/pub/alice'') local_note_store
   = (Inr \<lparr>ra_id = 3, ra_username = ''alice'', ra_domain = ''local.example'',
             ra_url = ''https://local.example/pub/alice'',
             ra_profile = JObj [(''id'', JStr ''https://local.example/pub/alice''),
                                (''preferredUsername'', JStr ''alice'')]\<rparr>,
      local_note_store\<lparr>remote_actors :=
           [\<lparr>ra_id = 3, ra_username = ''alice'', ra_domain = ''local.example'',
             ra_url = ''https://local.example/pub/alice'',
             ra_profile = JObj [(''id'', JStr ''https://local.example/pub/alice''),
                                (''preferredUsername'', JStr ''alice'')]\<rparr>],
         next_id := 4\<rparr>)"
  by (simp add: get_or_create_with_url_def get_row_def fetch_remote_profile_def py_get_def
      create_remote_actor_def evil_env_simps local_note_store_simps Let_def)

lemma own_upsert_Suc:
  "note_rows (snd (upsert_remote (Suc d) evil_env ''https://local.example''
      (JObj [(''id'', JStr ''https://local.example/notes/1'')]) local_note_store))
   = [local_note\<lparr>no_remote_actor := Some 3, no_published_at := 50, no_updated_at := 100\<rparr>]"
  by (simp add: u2 t3 u4 py_item_def py_get_def parse_datetime_value_def py_truthy_def
      evil_env_simps update_note_def local_note_store_simps local_note_simps local_note_def Let_def)

lemma own_upsert:
  assumes "0 < d"
  shows "note_rows (snd (upsert_remote d evil_env ''https://local.example''
      (JObj [(''id'', JStr ''https://local.example/notes/1'')]) local_note_store))
   = [local_note\<lparr>no_remote_actor := Some 3, no_published_at := 50, no_updated_at := 100\<rparr>]"
proof -
  obtain k where "d = Suc k" using assms by (cases d) auto
  then show ?thesis by (simp only: own_upsert_Suc)
qed

lemma post_request_simps:
  "rq_method (post_request a) = ''POST''" "rq_activity (post_request a) = Some a"
  "rq_validate (post_request a) = None" "rq_base_uri (post_request a) = ''https://local.example''"
  by (simp_all add: post_request_def)

lemma create_activity_simps:
  "py_item create_activity ''type'' = Inr (JStr ''Create'')"
  "py_item create_activity ''object''
     = Inr (JObj [(''id'', JStr ''https://evil.example/n/1''), (''type'', JStr ''Note'')])"
  by (simp_all add: create_activity_def py_item_def)

lemma evil_not_local: "\<not> startswith ''https://evil.example/n/1'' ''https://local.example''"
  by (simp add: startswith_def)

lemma alice_target:
  "get_row (filter (\<lambda>a. la_preferred_username a = ''alice'') (local_actors local_note_store)) = Inr alice"
  by (simp add: local_note_store_simps alice_def get_row_def)

lemma evil_inbox_create:
  "inbox_create evil_env (post_request create_activity) create_activity local_note_store
   = (Inr (JsonResponse OkBody 200),
      snd (upsert_remote 1000 evil_env ''https://local.example''
      (JObj [(''id'', JStr ''https://evil.example/n/1''), (''type'', JStr ''Note'')]) local_note_store))"
  by (simp add: inbox_create_def create_activity_simps t1 evil_not_local post_request_simps
      evil_env_simps evil_upsert del: upsert_remote.simps)

lemma evil_inbox:
  "inbox evil_env (post_request create_activity) ''alice'' local_note_store
   = (Inr (JsonResponse OkBody 200),
      snd (upsert_remote 1000 evil_env ''https://local.example''
      (JObj [(''id'', JStr ''https://evil.example/n/1''), (''type'', JStr ''Note'')]) local_note_store))"
  by (simp add: inbox_def post_request_simps alice_target create_activity_simps evil_inbox_create
      del: upsert_remote.simps)

text \<open>
  Claim C10. The claim is that every stored note has exactly one author and that every
  store operation keeps it so, \<open>upsert_remote\<close> on the URL of a locally authored note
  included. \<open>upsert_remote\<close> looks the note up under the \<open>id\<close> of the fetched
  document and sets \<open>remote_actor\<close> on the row it finds, without clearing
  \<open>local_actor\<close>; the inbox guards only \<open>obj['id']\<close>. In a store where every note
  has one author, a \<open>Create\<close> for \<open>https://evil.example/n/1\<close>, whose document
  gives the \<open>id\<close> of a note of \<open>alice\<close>, is answered with 200 and leaves that note
  with both authors, its content and URL replaced; and \<open>upsert_remote\<close> called with
  the note's own URL leaves it with both authors as well.
\<close>

theorem upsert_remote_breaks_one_author:
  "list_all one_author (note_rows local_note_store)
   \<and> fst (inbox evil_env (post_request create_activity) ''alice'' local_note_store)
       = Inr (JsonResponse OkBody 200)
   \<and> note_rows (snd (inbox evil_env (post_request create_activity) ''alice'' local_note_store))
       = [local_note\<lparr>no_remote_actor := Some 3, no_published_at := 50, no_updated_at := 100,
                      no_content := ''overwritten'',
                      no_content_url := ''https://evil.example/n/1''\<rparr>]
   \<and> \<not> list_all one_author
         (note_rows (snd (inbox evil_env (post_request create_activity) ''alice'' local_note_store)))
   \<and> \<not> list_all one_author
         (note_rows (snd (upsert_remote 1000 evil_env ''https://local.example''
                            (JObj [(''id'', JStr ''https://local.example/notes/1'')])
                            local_note_store)))"
proof -
  have a: "list_all one_author (note_rows local_note_store)"
    by (simp add: one_author_def local_note_store_simps local_note_simps)
  have b: "fst (inbox evil_env (post_request create_activity) ''alice'' local_note_store)
       = Inr (JsonResponse OkBody 200)"
    by (simp add: evil_inbox del: upsert_remote.simps)
  have c: "note_rows (snd (inbox evil_env (post_request create_activity) ''alice'' local_note_store))
       = [local_note\<lparr>no_remote_actor := Some 3, no_published_at := 50, no_updated_at := 100,
                      no_content := ''overwritten'',
                      no_content_url := ''https://evil.example/n/1''\<rparr>]"
    by (simp add: evil_inbox evil_upsert del: upsert_remote.simps)
  have d: "\<not> list_all one_author
         (note_rows (snd (inbox evil_env (post_request create_activity) ''alice'' local_note_store)))"
    by (simp add: c one_author_def local_note_simps)
  have e: "\<not> list_all one_author
         (note_rows (snd (upsert_remote 1000 evil_env ''https://local.example''
                            (JObj [(''id'', JStr ''https://local.example/notes/1'')])
                            local_note_store)))"
    by (simp add: own_upsert one_author_def local_note_simps del: upsert_remote.simps)
  show ?thesis using a b c d e by (simp only: simp_thms)
qed

section \<open>What resolving an actor and a fan-out leave unchanged\<close>

lemma actors_only_refl: "actors_only s s"
  by (simp add: actors_only_def)

lemma actors_only_trans: "actors_only s s1 \<Longrightarrow> actors_only s1 s2 \<Longrightarrow> actors_only s s2"
  by (simp add: actors_only_def)

lemma snd_map_outcome:
  "snd (case p of (Inl e, s') \<Rightarrow> (Inl e, s') | (Inr r, s') \<Rightarrow> (Inr (f r), s')) = snd p"
  by (cases p; cases "fst p") auto

lemma create_remote_actor_frame:
  "actors_only s (snd (create_remote_actor username domain url profile s))"
  by (simp add: create_remote_actor_def actors_only_def Let_def)


lemma get_or_create_with_username_domain_frame:
  "actors_only s (snd (get_or_create_with_username_domain E username domain s))"
proof -
  have c: "\<And>u p. actors_only s (snd (case create_remote_actor username domain u p s of
              (Inl e'', s') \<Rightarrow> (Inl e'', s')
            | (Inr r, s') \<Rightarrow> (Inr (Some r), s')))"
    by (simp add: snd_map_outcome create_remote_actor_frame)
  show ?thesis
    by (auto simp add: get_or_create_with_username_domain_def actors_only_refl c
        simp del: split_paired_All split: sum.splits json.splits)
qed

lemma parse_mentions_frame:
  "actors_only s (snd (parse_mentions E keys s))"
proof (induction keys arbitrary: s)
  case Nil
  show ?case by (simp add: actors_only_refl)
next
  case (Cons key keys)
  obtain r s1 where g: "get_or_create_with_username_domain E (fst key) (snd key) s = (r, s1)"
    by (cases "get_or_create_with_username_domain E (fst key) (snd key) s")
  have a1: "actors_only s s1"
    using get_or_create_with_username_domain_frame [of s E "fst key" "snd key"] g by simp
  obtain r2 s2 where p: "parse_mentions E keys s1 = (r2, s2)"
    by (cases "parse_mentions E keys s1")
  have a2: "actors_only s1 s2" using Cons.IH [of s1] p by simp
  have a3: "actors_only s s2" using a1 a2 by (rule actors_only_trans)
  show ?case
    using a1 a3 by (simp add: g p split: sum.splits option.splits)
qed

lemma as_json_frame:
  "actors_only s (snd (as_json E base_uri n s))"
proof -
  obtain r s1 where p: "parse_mentions E (mention_matches E (no_content n)) s = (r, s1)"
    by (cases "parse_mentions E (mention_matches E (no_content n)) s")
  have a1: "actors_only s s1"
    using parse_mentions_frame [of s E "mention_matches E (no_content n)"] p by simp
  show ?thesis
    using a1 by (simp add: as_json_def p actors_only_refl Let_def split: sum.splits option.splits)
qed

lemma deliver_to_frame:
  "local_actors (snd (deliver_to E pk ku msg fs s)) = local_actors s
   \<and> follower_rows (snd (deliver_to E pk ku msg fs s)) = follower_rows s
   \<and> note_rows (snd (deliver_to E pk ku msg fs s)) = note_rows s
   \<and> next_id (snd (deliver_to E pk ku msg fs s)) = next_id s
   \<and> envelopes (snd (deliver_to E pk ku msg fs s)) = envelopes s
   \<and> (\<exists>ds. sent (snd (deliver_to E pk ku msg fs s)) = sent s @ ds \<and> (\<forall>d\<in>set ds. dl_body d = msg))"
proof (induction fs arbitrary: s)
  case Nil
  show ?case by simp
next
  case (Cons f fs)
  show ?case
  proof (cases "py_get (ra_profile f) ''inbox''")
    case (Inl e)
    then show ?thesis by simp
  next
    case (Inr inbox_url)
    let ?d = "\<lparr>dl_url = inbox_url, dl_private_key = pk, dl_public_key_url = ku, dl_body = msg\<rparr>"
    let ?s1 = "s\<lparr>sent := sent s @ [?d]\<rparr>"
    show ?thesis
    proof (cases "http_post E ?d")
      case False
      then show ?thesis using Inr by (simp add: Let_def)
    next
      case True
      have eq: "deliver_to E pk ku msg (f # fs) s = deliver_to E pk ku msg fs ?s1"
        using Inr True by (simp add: Let_def)
      let ?s' = "snd (deliver_to E pk ku msg fs ?s1)"
      have ih: "local_actors ?s' = local_actors ?s1 \<and> follower_rows ?s' = follower_rows ?s1
          \<and> note_rows ?s' = note_rows ?s1 \<and> next_id ?s' = next_id ?s1
          \<and> envelopes ?s' = envelopes ?s1
          \<and> (\<exists>ds. sent ?s' = sent ?s1 @ ds \<and> (\<forall>d\<in>set ds. dl_body d = msg))"
        by (rule Cons.IH)
      then obtain ds where ds: "sent ?s' = sent ?s1 @ ds" and body: "\<forall>d\<in>set ds. dl_body d = msg"
        by blast
      have "sent ?s' = sent s @ (?d # ds)" using ds by simp
      moreover have "\<forall>d\<in>set (?d # ds). dl_body d = msg" using body by simp
      ultimately have ex: "\<exists>ds. sent ?s' = sent s @ ds \<and> (\<forall>d\<in>set ds. dl_body d = msg)"
        by blast
      have rest: "local_actors ?s' = local_actors s" "follower_rows ?s' = follower_rows s"
        "note_rows ?s' = note_rows s" "next_id ?s' = next_id s" "envelopes ?s' = envelopes s"
        using ih by simp_all
      show ?thesis unfolding eq using rest ex by (intro conjI)
    qed
  qed
qed

lemma send_to_followers_fan_out:
  assumes build: "\<And>u s0. actors_only s0 (snd (build u s0))"
      and ty: "\<And>u s0 msg. fst (build u s0) = Inr msg \<Longrightarrow> py_get msg ''type'' = Inr (JStr ty)"
  shows "fan_out ty s (snd (send_to_followers E base_url n build s))"
proof (cases "case no_local_actor n of None \<Rightarrow> Inl AttributeError | Some i \<Rightarrow> find_local_actor s i")
  case (Inl e)
  then show ?thesis by (simp add: send_to_followers_def fan_out_def)
next
  case (Inr actor)
  let ?u = "base_url @ reverse_profile E (la_preferred_username actor)"
  obtain r s1 where b: "build ?u s = (r, s1)" by (cases "build ?u s")
  have a: "actors_only s s1" using build [of s ?u] b by simp
  show ?thesis
  proof (cases r)
    case (Inl e)
    then show ?thesis using a Inr b
      by (simp add: send_to_followers_def fan_out_def actors_only_def)
  next
    case (Inr msg)
    let ?s2 = "s1\<lparr>envelopes := envelopes s1 @ [msg]\<rparr>"
    let ?s3 = "snd (deliver_to E (la_private_key actor) (?u @ ''#main-key'') msg
                     (followers_of ?s2 (la_id actor)) ?s2)"
    have eq: "snd (send_to_followers E base_url n build s) = ?s3"
      using \<open>(case no_local_actor n of None \<Rightarrow> Inl AttributeError | Some i \<Rightarrow> find_local_actor s i) = Inr actor\<close> b Inr
      by (simp add: send_to_followers_def Let_def)
    have t: "py_get msg ''type'' = Inr (JStr ty)" using ty [of ?u s msg] b Inr by simp
    obtain ds where ds: "sent ?s3 = sent ?s2 @ ds" and body: "\<forall>d\<in>set ds. dl_body d = msg"
      using deliver_to_frame [of E "la_private_key actor" "?u @ ''#main-key''" msg
          "followers_of ?s2 (la_id actor)" ?s2] by blast
    have fr: "local_actors ?s3 = local_actors s" "follower_rows ?s3 = follower_rows s"
      "note_rows ?s3 = note_rows s" "next_id s \<le> next_id ?s3"
      "envelopes ?s3 = envelopes s @ [msg]" "sent ?s3 = sent s @ ds"
      using deliver_to_frame [of E "la_private_key actor" "?u @ ''#main-key''" msg
          "followers_of ?s2 (la_id actor)" ?s2] a ds
      by (simp_all add: actors_only_def)
    have "\<exists>ms ds. envelopes ?s3 = envelopes s @ ms \<and> sent ?s3 = sent s @ ds \<and> length ms \<le> 1
             \<and> (\<forall>m\<in>set ms. py_get m ''type'' = Inr (JStr ty))
             \<and> (\<forall>d\<in>set ds. py_get (dl_body d) ''type'' = Inr (JStr ty))"
      using fr(5,6) t body by (intro exI [of _ "[msg]"] exI [of _ ds]) simp
    then show ?thesis unfolding eq fan_out_def using fr(1-4) by blast
  qed
qed

lemma fst_map_outcome:
  "fst (case p of (Inl e, s') \<Rightarrow> (Inl e, s') | (Inr r, s') \<Rightarrow> (Inr (f r), s'))
     = (case fst p of Inl e \<Rightarrow> Inl e | Inr r \<Rightarrow> Inr (f r))"
  by (cases p; cases "fst p") auto

lemma send_update_fan_out:
  "fan_out ''Update'' s (snd (send_update_note_to_followers E base_url n s))"
  unfolding send_update_note_to_followers_def
proof (rule send_to_followers_fan_out)
  fix u s0
  show "actors_only s0 (snd (case as_json E base_url n s0 of
          (Inl e, s1) \<Rightarrow> (Inl e, s1)
        | (Inr obj, s1) \<Rightarrow>
            (Inr (JObj [(''@context'', JArr [JStr ''https://www.w3.org/ns/activitystreams'']),
                        (''type'', JStr ''Update''),
                        (''id'', JStr (no_content_url n @ ''#updates/'' @ timestamp E (no_updated_at n))),
                        (''actor'', JStr u),
                        (''object'', obj),
                        (''published'', JStr (format_datetime E (no_published_at n)))]), s1)))"
    by (simp add: snd_map_outcome as_json_frame)
next
  fix u s0 msg
  assume "fst (case as_json E base_url n s0 of
          (Inl e, s1) \<Rightarrow> (Inl e, s1)
        | (Inr obj, s1) \<Rightarrow>
            (Inr (JObj [(''@context'', JArr [JStr ''https://www.w3.org/ns/activitystreams'']),
                        (''type'', JStr ''Update''),
                        (''id'', JStr (no_content_url n @ ''#updates/'' @ timestamp E (no_updated_at n))),
                        (''actor'', JStr u),
                        (''object'', obj),
                        (''published'', JStr (format_datetime E (no_published_at n)))]), s1)) = Inr msg"
  then show "py_get msg ''type'' = Inr (JStr ''Update'')"
    by (auto simp add: fst_map_outcome py_get_def split: sum.splits)
qed

lemma send_create_fan_out:
  "fan_out ''Create'' s (snd (send_create_note_to_followers E base_url n s))"
  unfolding send_create_note_to_followers_def
proof (rule send_to_followers_fan_out)
  fix u s0
  show "actors_only s0 (snd (case as_json E base_url n s0 of
          (Inl e, s1) \<Rightarrow> (Inl e, s1)
        | (Inr obj, s1) \<Rightarrow>
            (Inr (JObj [(''@context'', JArr [JStr ''https://www.w3.org/ns/activitystreams'',
                                            JStr ''https://w3id.org/security/v1'']),
                        (''type'', JStr ''Create''),
                        (''id'', JStr (base_url @ ''/'' @ uuid4 E)),
                        (''actor'', JStr u),
                        (''object'', obj)]), s1)))"
    by (simp add: snd_map_outcome as_json_frame)
next
  fix u s0 msg
  assume "fst (case as_json E base_url n s0 of
          (Inl e, s1) \<Rightarrow> (Inl e, s1)
        | (Inr obj, s1) \<Rightarrow>
            (Inr (JObj [(''@context'', JArr [JStr ''https://www.w3.org/ns/activitystreams'',
                                            JStr ''https://w3id.org/security/v1'']),
                        (''type'', JStr ''Create''),
                        (''id'', JStr (base_url @ ''/'' @ uuid4 E)),
                        (''actor'', JStr u),
                        (''object'', obj)]), s1)) = Inr msg"
  then show "py_get msg ''type'' = Inr (JStr ''Create'')"
    by (auto simp add: fst_map_outcome py_get_def split: sum.splits)
qed


section \<open>Where a missing parent can be raised\<close>

lemma first_self_link_not_parent: "first_self_link ls \<noteq> Inl ParentDoesNotExist"
  by (induction ls) (auto split: json.splits)

lemma finger_not_parent: "finger E username domain \<noteq> Inl ParentDoesNotExist"
  using first_self_link_not_parent
  by (auto simp add: finger_def py_get_def fetch_remote_profile_def
      split: http_result.splits json.splits sum.splits if_splits option.splits)

lemma get_row_not_parent: "get_row rows \<noteq> Inl ParentDoesNotExist"
  by (simp add: get_row_def split: list.splits)

lemma create_remote_actor_not_parent:
  "fst (create_remote_actor username domain url profile s) \<noteq> Inl ParentDoesNotExist"
  by (simp add: create_remote_actor_def Let_def)

lemma get_or_create_with_username_domain_not_parent:
  "fst (get_or_create_with_username_domain E username domain s) \<noteq> Inl ParentDoesNotExist"
proof -
  have c: "\<And>u p. fst (case create_remote_actor username domain u p s of
              (Inl e'', s') \<Rightarrow> (Inl e'', s')
            | (Inr r, s') \<Rightarrow> (Inr (Some r), s')) \<noteq> Inl ParentDoesNotExist"
    using create_remote_actor_not_parent [of username domain _ _ s]
    by (auto simp add: fst_map_outcome split: sum.splits)
  show ?thesis
    using finger_not_parent [of E username domain] get_row_not_parent c
    by (auto simp add: get_or_create_with_username_domain_def py_item_def py_get_def
        simp del: split_paired_All split: sum.splits json.splits option.splits)
qed

lemma parse_mentions_not_parent:
  "fst (parse_mentions E keys s) \<noteq> Inl ParentDoesNotExist"
proof (induction keys arbitrary: s)
  case Nil
  show ?case by simp
next
  case (Cons key keys)
  obtain r s1 where g: "get_or_create_with_username_domain E (fst key) (snd key) s = (r, s1)"
    by (cases "get_or_create_with_username_domain E (fst key) (snd key) s")
  have a1: "r \<noteq> Inl ParentDoesNotExist"
    using get_or_create_with_username_domain_not_parent [of E "fst key" "snd key" s] g by simp
  obtain r2 s2 where p: "parse_mentions E keys s1 = (r2, s2)"
    by (cases "parse_mentions E keys s1")
  have a2: "r2 \<noteq> Inl ParentDoesNotExist" using Cons.IH [of s1] p by simp
  show ?case
    using a1 a2 by (auto simp add: g p split: sum.splits option.splits)
qed

lemma find_stored:
  "i \<in> f ` set xs \<Longrightarrow> \<exists>x. find (\<lambda>x. f x = i) xs = Some x \<and> x \<in> set xs \<and> f x = i"
  by (induction xs) auto

lemma as_json_not_parent:
  assumes "\<forall>p. no_parent n = Some p \<longrightarrow> p \<in> no_id ` set (note_rows s)"
  shows "fst (as_json E base_uri n s) \<noteq> Inl ParentDoesNotExist"
proof -
  obtain r s1 where p: "parse_mentions E (mention_matches E (no_content n)) s = (r, s1)"
    by (cases "parse_mentions E (mention_matches E (no_content n)) s")
  have a1: "note_rows s1 = note_rows s"
    using parse_mentions_frame [of s E "mention_matches E (no_content n)"] p
    by (simp add: actors_only_def)
  have a2: "r \<noteq> Inl ParentDoesNotExist"
    using parse_mentions_not_parent [of E "mention_matches E (no_content n)" s] p by simp
  have a3: "\<And>q. no_parent n = Some q \<Longrightarrow> find_note s1 q \<noteq> Inl ParentDoesNotExist"
  proof -
    fix q assume "no_parent n = Some q"
    then have "q \<in> no_id ` set (note_rows s1)" using assms a1 by simp
    from find_stored [OF this] show "find_note s1 q \<noteq> Inl ParentDoesNotExist"
      by (auto simp add: find_note_def)
  qed
  show ?thesis
    using a2 a3
    by (auto simp add: as_json_def p Let_def find_local_actor_def find_remote_actor_def
        split: sum.splits option.splits)
qed

lemma deliver_to_not_parent:
  "fst (deliver_to E pk ku msg fs s) \<noteq> Inl ParentDoesNotExist"
  by (induction fs arbitrary: s) (auto simp add: py_get_def Let_def split: sum.splits json.splits)

lemma send_update_not_parent:
  assumes "\<forall>p. no_parent n = Some p \<longrightarrow> p \<in> no_id ` set (note_rows s)"
  shows "fst (send_update_note_to_followers E base_url n s) \<noteq> Inl ParentDoesNotExist"
proof -
  obtain r s1 where a: "as_json E base_url n s = (r, s1)" by (cases "as_json E base_url n s")
  have r: "r \<noteq> Inl ParentDoesNotExist" using as_json_not_parent [OF assms, of E base_url] a by simp
  show ?thesis
    using r deliver_to_not_parent
    by (auto simp add: send_update_note_to_followers_def send_to_followers_def a Let_def
        find_local_actor_def split: sum.splits option.splits)
qed

section \<open>Upsert of a local note\<close>

lemma filter_update:
  "distinct (map f xs) \<Longrightarrow> filter P xs = [n] \<Longrightarrow> P r \<Longrightarrow> f r = f n
     \<Longrightarrow> filter P (map (\<lambda>m. if f m = f n then r else m) xs) = [r]"
proof (induction xs)
  case Nil
  then show ?case by simp
next
  case (Cons x xs)
  have n_in: "n \<in> set (x # xs)" using filter_singleton [OF Cons.prems(2)] by simp
  show ?case
  proof (cases "x = n")
    case True
    have pn: "P n" using filter_singleton [OF Cons.prems(2)] by simp
    have rest: "filter P xs = []" using Cons.prems(2) True pn by simp
    have "f n \<notin> f ` set xs" using Cons.prems(1) True by simp
    then have other: "\<forall>m\<in>set xs. f m \<noteq> f n" by (metis imageI)
    have "map (\<lambda>m. if f m = f n then r else m) xs = xs"
      using other by (induction xs) auto
    then show ?thesis using True rest Cons.prems(3) by simp
  next
    case False
    then have n_xs: "n \<in> set xs" using n_in by simp
    have "f x \<notin> f ` set xs" using Cons.prems(1) by simp
    then have fx: "f x \<noteq> f n" using n_xs by (metis imageI)
    have npx: "\<not> P x"
    proof
      assume "P x"
      then have "filter P (x # xs) = x # filter P xs" by simp
      then show False using Cons.prems(2) False by simp
    qed
    have "filter P xs = [n]" using Cons.prems(2) npx by simp
    then have "filter P (map (\<lambda>m. if f m = f n then r else m) xs) = [r]"
      using Cons.IH Cons.prems by simp
    then show ?thesis using fx npx by simp
  qed
qed

lemma map_id_update:
  "f r = f n \<Longrightarrow> map f (map (\<lambda>m. if f m = f n then r else m) xs) = map f xs"
  by (induction xs) auto

lemma upsert_create_step:
  assumes keys: "note_keys s"
      and stored: "la_id actor \<in> la_id ` set (local_actors s)"
      and fresh: "filter (\<lambda>n. no_content_url n = u) (note_rows s) = []"
  shows "\<exists>n. note_rows (snd (upsert_create E base_uri actor c u s)) = note_rows s @ [n]
           \<and> no_content n = c \<and> no_content_url n = u \<and> no_id n = next_id s
           \<and> no_parent n = None
           \<and> next_id s < next_id (snd (upsert_create E base_uri actor c u s))
           \<and> local_actors (snd (upsert_create E base_uri actor c u s)) = local_actors s"
proof -
  let ?n1 = "\<lparr>no_id = next_id s, no_local_actor = Some (la_id actor),
               no_remote_actor = None, no_published_at = timezone_now E,
               no_updated_at = timezone_now E, no_content = c,
               no_content_url = u, no_parent = None, no_likes = [], no_announces = []\<rparr>"
  let ?s1 = "s\<lparr>note_rows := note_rows s @ [?n1], next_id := Suc (next_id s)\<rparr>"
  let ?s2 = "snd (send_create_note_to_followers E base_uri ?n1 ?s1)"
  have eq: "snd (upsert_create E base_uri actor c u s) = ?s2"
    using stored by (simp add: upsert_create_def Let_def snd_map_outcome)
  have f: "fan_out ''Create'' ?s1 ?s2" by (rule send_create_fan_out)
  show ?thesis
    unfolding eq using f by (intro exI [of _ ?n1]) (simp add: fan_out_def)
qed

lemma send_to_followers_ok:
  assumes build: "\<And>u s0. actors_only s0 (snd (build u s0))"
      and ok: "fst (send_to_followers E base_url n build s) = Inr x"
  shows "\<exists>msg. envelopes (snd (send_to_followers E base_url n build s)) = envelopes s @ [msg]"
proof (cases "case no_local_actor n of None \<Rightarrow> Inl AttributeError | Some i \<Rightarrow> find_local_actor s i")
  case (Inl e)
  then show ?thesis using ok by (simp add: send_to_followers_def)
next
  case (Inr actor)
  note actor = this
  let ?u = "base_url @ reverse_profile E (la_preferred_username actor)"
  obtain r s1 where b: "build ?u s = (r, s1)" by (cases "build ?u s")
  have a: "actors_only s s1" using build [of s ?u] b by simp
  show ?thesis
  proof (cases r)
    case (Inl e)
    then show ?thesis using ok actor b by (simp add: send_to_followers_def)
  next
    case (Inr msg)
    let ?s2 = "s1\<lparr>envelopes := envelopes s1 @ [msg]\<rparr>"
    let ?s3 = "snd (deliver_to E (la_private_key actor) (?u @ ''#main-key'') msg
                     (followers_of ?s2 (la_id actor)) ?s2)"
    have eq: "snd (send_to_followers E base_url n build s) = ?s3"
      using actor b Inr by (simp add: send_to_followers_def Let_def)
    have "envelopes ?s3 = envelopes s @ [msg]"
      using deliver_to_frame [of E "la_private_key actor" "?u @ ''#main-key''" msg
          "followers_of ?s2 (la_id actor)" ?s2] a
      by (simp add: actors_only_def)
    then show ?thesis unfolding eq by blast
  qed
qed

lemma send_update_ok:
  assumes "fst (send_update_note_to_followers E base_url n s) = Inr x"
  shows "\<exists>msg. envelopes (snd (send_update_note_to_followers E base_url n s)) = envelopes s @ [msg]"
  using assms unfolding send_update_note_to_followers_def
  by (rule send_to_followers_ok [rotated]) (simp add: snd_map_outcome as_json_frame)

lemma upsert_found:
  assumes keys: "note_keys s"
      and found: "filter (\<lambda>n. no_content_url n = u) (note_rows s) = [n]"
  shows "upsert E base_uri actor c u s
     = (case send_update_note_to_followers E base_uri
               (n\<lparr>no_updated_at := timezone_now E, no_content := c\<rparr>)
               (update_note (n\<lparr>no_updated_at := timezone_now E, no_content := c\<rparr>) s) of
          (Inl e, s2) \<Rightarrow> (Inl e, s2)
        | (Inr x, s2) \<Rightarrow> (Inr (n\<lparr>no_updated_at := timezone_now E, no_content := c\<rparr>), s2))"
proof -
  let ?n1 = "n\<lparr>no_updated_at := timezone_now E, no_content := c\<rparr>"
  let ?s1 = "update_note ?n1 s"
  have n_in: "n \<in> set (note_rows s)" using filter_singleton [OF found] by simp
  have ids: "no_id ` set (note_rows ?s1) = no_id ` set (note_rows s)"
  proof -
    have "map no_id (note_rows ?s1) = map no_id (note_rows s)"
      by (simp add: update_note_def map_id_update [where f = no_id and r = ?n1 and n = n])
    then have "set (map no_id (note_rows ?s1)) = set (map no_id (note_rows s))" by simp
    then show ?thesis by simp
  qed
  have par: "\<forall>p. no_parent ?n1 = Some p \<longrightarrow> p \<in> no_id ` set (note_rows ?s1)"
    using keys n_in unfolding ids by (simp add: note_keys_def)
  have np: "fst (send_update_note_to_followers E base_uri ?n1 ?s1) \<noteq> Inl ParentDoesNotExist"
    by (rule send_update_not_parent [OF par])
  obtain r s2 where su: "send_update_note_to_followers E base_uri ?n1 ?s1 = (r, s2)"
    by (cases "send_update_note_to_followers E base_uri ?n1 ?s1")
  have "r \<noteq> Inl ParentDoesNotExist" using np su by simp
  then show ?thesis
    by (cases r) (simp_all add: upsert_def found get_row_def Let_def su)
qed

lemma upsert_step:
  assumes keys: "note_keys s"
      and stored: "la_id actor \<in> la_id ` set (local_actors s)"
      and one: "length (filter (\<lambda>n. no_content_url n = u) (note_rows s)) \<le> 1"
  shows "note_keys (snd (upsert E base_uri actor c u s))
       \<and> local_actors (snd (upsert E base_uri actor c u s)) = local_actors s
       \<and> (\<exists>n. filter (\<lambda>n. no_content_url n = u) (note_rows (snd (upsert E base_uri actor c u s))) = [n]
                \<and> no_content n = c)"
proof (cases "filter (\<lambda>n. no_content_url n = u) (note_rows s)")
  case Nil
  let ?s' = "snd (upsert_create E base_uri actor c u s)"
  have eq: "upsert E base_uri actor c u s = upsert_create E base_uri actor c u s"
    by (simp add: upsert_def Nil get_row_def)
  obtain n where rows: "note_rows ?s' = note_rows s @ [n]" and n: "no_content n = c"
      "no_content_url n = u" "no_id n = next_id s" "no_parent n = None"
      and nx: "next_id s < next_id ?s'" and la: "local_actors ?s' = local_actors s"
    using upsert_create_step [OF keys stored Nil, of E base_uri c] by blast
  have lt: "\<forall>m\<in>set (note_rows s). no_id m < next_id s" using keys by (simp add: note_keys_def)
  have d: "distinct (map no_id (note_rows ?s'))"
    using keys lt n(3) by (auto simp add: rows note_keys_def)
  have b: "\<forall>m\<in>set (note_rows ?s'). no_id m < next_id ?s'"
    using lt nx n(3) by (auto simp add: rows)
  have p: "\<forall>m\<in>set (note_rows ?s'). \<forall>q. no_parent m = Some q \<longrightarrow> q \<in> no_id ` set (note_rows ?s')"
    using keys n(4) by (auto simp add: rows note_keys_def)
  have f: "filter (\<lambda>n. no_content_url n = u) (note_rows ?s') = [n]"
    using Nil n(2) by (simp add: rows)
  show ?thesis unfolding eq using d b p la f n(1) by (simp add: note_keys_def)
next
  case (Cons n rest)
  have "rest = []" using one Cons by simp
  then have found: "filter (\<lambda>n. no_content_url n = u) (note_rows s) = [n]" using Cons by simp
  let ?n1 = "n\<lparr>no_updated_at := timezone_now E, no_content := c\<rparr>"
  let ?s1 = "update_note ?n1 s"
  let ?s' = "snd (send_update_note_to_followers E base_uri ?n1 ?s1)"
  have eq: "snd (upsert E base_uri actor c u s) = ?s'"
    by (simp add: upsert_found [OF keys found] snd_map_outcome)
  have fo: "fan_out ''Update'' ?s1 ?s'" by (rule send_update_fan_out)
  have n_in: "n \<in> set (note_rows s)" and n_url: "no_content_url n = u"
    using filter_singleton [OF found] by simp_all
  have rows: "note_rows ?s' = map (\<lambda>m. if no_id m = no_id n then ?n1 else m) (note_rows s)"
    using fo by (simp add: fan_out_def update_note_def)
  have ids: "map no_id (note_rows ?s') = map no_id (note_rows s)"
    unfolding rows by (rule map_id_update) simp
  then have "set (map no_id (note_rows ?s')) = set (map no_id (note_rows s))" by simp
  then have idset: "no_id ` set (note_rows ?s') = no_id ` set (note_rows s)" by simp
  have nx: "next_id s \<le> next_id ?s'" using fo by (simp add: fan_out_def update_note_def)
  have la: "local_actors ?s' = local_actors s" using fo by (simp add: fan_out_def update_note_def)
  have d: "distinct (map no_id (note_rows ?s'))" using keys by (simp add: ids note_keys_def)
  have b: "\<forall>m\<in>set (note_rows ?s'). no_id m < next_id ?s'"
  proof
    fix m assume "m \<in> set (note_rows ?s')"
    then have "no_id m \<in> no_id ` set (note_rows s)" using idset by blast
    then have "no_id m < next_id s" using keys by (auto simp add: note_keys_def)
    then show "no_id m < next_id ?s'" using nx by simp
  qed
  have p: "\<forall>m\<in>set (note_rows ?s'). \<forall>q. no_parent m = Some q \<longrightarrow> q \<in> no_id ` set (note_rows ?s')"
  proof (intro ballI allI impI)
    fix m q assume m: "m \<in> set (note_rows ?s')" and q: "no_parent m = Some q"
    have "m = ?n1 \<or> m \<in> set (note_rows s)" using m unfolding rows by auto
    then have "\<exists>m0\<in>set (note_rows s). no_parent m0 = Some q"
      using q n_in by auto
    then have "q \<in> no_id ` set (note_rows s)" using keys by (auto simp add: note_keys_def)
    then show "q \<in> no_id ` set (note_rows ?s')" using idset by simp
  qed
  have dk: "distinct (map no_id (note_rows s))" using keys by (simp add: note_keys_def)
  have f: "filter (\<lambda>n. no_content_url n = u) (note_rows ?s') = [?n1]"
    unfolding rows by (rule filter_update [OF dk found]) (simp_all add: n_url)
  show ?thesis unfolding eq using d b p la f by (simp add: note_keys_def)
qed

lemma upsert_update_fan_out:
  assumes keys: "note_keys s"
      and found: "filter (\<lambda>n. no_content_url n = u) (note_rows s) = [n]"
  shows "length (note_rows (snd (upsert E base_uri actor c u s))) = length (note_rows s)
       \<and> (\<exists>ms ds. envelopes (snd (upsert E base_uri actor c u s)) = envelopes s @ ms
                \<and> sent (snd (upsert E base_uri actor c u s)) = sent s @ ds
                \<and> length ms \<le> 1
                \<and> (\<forall>m\<in>set ms. py_get m ''type'' = Inr (JStr ''Update''))
                \<and> (\<forall>d\<in>set ds. py_get (dl_body d) ''type'' = Inr (JStr ''Update''))
                \<and> ((\<exists>x. fst (upsert E base_uri actor c u s) = Inr x) \<longrightarrow> length ms = 1))"
proof -
  let ?n1 = "n\<lparr>no_updated_at := timezone_now E, no_content := c\<rparr>"
  let ?s1 = "update_note ?n1 s"
  let ?su = "send_update_note_to_followers E base_uri ?n1 ?s1"
  let ?s' = "snd ?su"
  have eq: "snd (upsert E base_uri actor c u s) = ?s'"
    by (simp add: upsert_found [OF keys found] snd_map_outcome)
  have eqf: "(\<exists>x. fst (upsert E base_uri actor c u s) = Inr x) = (\<exists>x. fst ?su = Inr x)"
    by (cases ?su; cases "fst ?su") (auto simp add: upsert_found [OF keys found])
  have fo: "fan_out ''Update'' ?s1 ?s'" by (rule send_update_fan_out)
  then obtain ms ds where e: "envelopes ?s' = envelopes s @ ms" and d: "sent ?s' = sent s @ ds"
      and l: "length ms \<le> 1" and tm: "\<forall>m\<in>set ms. py_get m ''type'' = Inr (JStr ''Update'')"
      and td: "\<forall>d\<in>set ds. py_get (dl_body d) ''type'' = Inr (JStr ''Update'')"
    by (auto simp add: fan_out_def update_note_def)
  have len: "length (note_rows ?s') = length (note_rows s)"
    using fo by (simp add: fan_out_def update_note_def)
  have ok: "(\<exists>x. fst ?su = Inr x) \<longrightarrow> length ms = 1"
  proof
    assume "\<exists>x. fst ?su = Inr x"
    then obtain x where "fst ?su = Inr x" by blast
    from send_update_ok [OF this] obtain msg where "envelopes ?s' = envelopes ?s1 @ [msg]" by blast
    then have "envelopes s @ ms = envelopes s @ [msg]" using e by (simp add: update_note_def)
    then show "length ms = 1" by simp
  qed
  show ?thesis unfolding eq eqf using len e d l tm td ok by blast
qed

text \<open>
  Claim C5. In a store whose \<open>Note\<close> keys hold (distinct primary keys, stored
  parents), with the local actor stored and at most one note under the content URL
  \<open>u\<close>: after \<open>upsert\<close> with \<open>(u, a)\<close> and then \<open>upsert\<close> with \<open>(u, b)\<close>,
  whatever the two calls return, exactly one stored note has the content URL \<open>u\<close> and
  its content is \<open>b\<close>; the second call adds no row; every envelope it builds and every
  delivery it makes is an \<open>Update\<close>, never a \<open>Create\<close>; and when the second call
  returns without an exception it has built exactly one \<open>Update\<close> envelope.
\<close>

theorem upsert_twice:
  assumes keys: "note_keys s"
      and stored: "la_id actor \<in> la_id ` set (local_actors s)"
      and one: "length (filter (\<lambda>n. no_content_url n = u) (note_rows s)) \<le> 1"
      and first: "upsert E1 base_uri actor a u s = (r1, s1)"
      and second: "upsert E2 base_uri actor b u s1 = (r2, s2)"
  shows "(\<exists>n. filter (\<lambda>n. no_content_url n = u) (note_rows s2) = [n] \<and> no_content n = b)
       \<and> length (note_rows s2) = length (note_rows s1)
       \<and> (\<exists>ms ds. envelopes s2 = envelopes s1 @ ms \<and> sent s2 = sent s1 @ ds
              \<and> length ms \<le> 1
              \<and> (\<forall>m\<in>set ms. py_get m ''type'' = Inr (JStr ''Update''))
              \<and> (\<forall>d\<in>set ds. py_get (dl_body d) ''type'' = Inr (JStr ''Update''))
              \<and> ((\<exists>x. r2 = Inr x) \<longrightarrow> length ms = 1))"
proof -
  have s1: "s1 = snd (upsert E1 base_uri actor a u s)" using first by simp
  have s2: "s2 = snd (upsert E2 base_uri actor b u s1)"
    and r2: "r2 = fst (upsert E2 base_uri actor b u s1)" using second by simp_all
  have st1: "note_keys s1" "local_actors s1 = local_actors s"
    "\<exists>n. filter (\<lambda>n. no_content_url n = u) (note_rows s1) = [n] \<and> no_content n = a"
    using upsert_step [OF keys stored one, of E1 base_uri a] unfolding s1 by simp_all
  then obtain n where found: "filter (\<lambda>n. no_content_url n = u) (note_rows s1) = [n]" by blast
  have stored1: "la_id actor \<in> la_id ` set (local_actors s1)" using stored st1(2) by simp
  have one1: "length (filter (\<lambda>n. no_content_url n = u) (note_rows s1)) \<le> 1" using found by simp
  have a: "\<exists>n. filter (\<lambda>n. no_content_url n = u) (note_rows s2) = [n] \<and> no_content n = b"
    using upsert_step [OF st1(1) stored1 one1, of E2 base_uri b] unfolding s2 by simp
  show ?thesis
    using a upsert_update_fan_out [OF st1(1) found, of E2 base_uri actor b]
    unfolding s2 r2 by (intro conjI) simp_all
qed

lemma sample_env_simps:
  "mention_matches sample_env c = []" "reverse_profile sample_env x = ''/pub/'' @ x"
  "http_post sample_env d = True" "timezone_now sample_env = 100"
  "resolve_url sample_env ''https://local.example/pub/alice'' = ProfileMatch ''alice'' ''local.example''"
  by (simp_all add: sample_env_def)

lemma alice_simps:
  "la_id alice = 1" "la_preferred_username alice = ''alice''" "la_private_key alice = ''KEY-A''"
  "la_domain alice = ''local.example''"
  by (simp_all add: alice_def)

lemma bob_simps:
  "ra_id bob = 2" "ra_url bob = ''https://b.example/users/bob''"
  "py_get (ra_profile bob) ''inbox'' = Inr (JStr ''https://b.example/users/bob/inbox'')"
  by (simp_all add: bob_def py_get_def)

lemma followed_store_simps:
  "local_actors followed_store = [alice]" "remote_actors followed_store = [bob]"
  "follower_rows followed_store = [bob_follows]" "note_rows followed_store = []"
  "next_id followed_store = 4" "envelopes followed_store = []" "sent followed_store = []"
  by (simp_all add: followed_store_def alice_bob_store_def empty_store_def)

lemma bob_follows_simps:
  "fo_remote_actor bob_follows = 2" "fo_following bob_follows = 1"
  by (simp_all add: bob_follows_def)

lemma send_to_alice_followers:
  assumes n: "no_local_actor n = Some 1"
      and s: "local_actors s = [alice]" "remote_actors s = [bob]" "follower_rows s = [bob_follows]"
      and b: "build (base_url @ ''/pub/alice'') s = (Inr msg, s)"
  shows "send_to_followers sample_env base_url n build s
     = (Inr (), s\<lparr>envelopes := envelopes s @ [msg],
                     sent := sent s @ [\<lparr>dl_url = JStr ''https://b.example/users/bob/inbox'',
                                        dl_private_key = ''KEY-A'',
                                        dl_public_key_url = (base_url @ ''/pub/alice'') @ ''#main-key'',
                                        dl_body = msg\<rparr>]\<rparr>)"
  by (simp add: send_to_followers_def n s find_local_actor_def alice_simps sample_env_simps b
      followers_of_def bob_follows_simps bob_simps Let_def)

lemma as_json_alice:
  assumes n: "no_local_actor n = Some 1" "no_parent n = None"
      and s: "local_actors s = [alice]"
  shows "\<exists>obj. as_json sample_env base_uri n s = (Inr obj, s)"
  by (simp add: as_json_def n s find_local_actor_def alice_simps sample_env_simps Let_def)

lemma send_update_sample:
  assumes n: "no_local_actor n = Some 1" "no_parent n = None"
      and s: "local_actors s = [alice]" "remote_actors s = [bob]" "follower_rows s = [bob_follows]"
  shows "\<exists>msg d. send_update_note_to_followers sample_env base_url n s
            = (Inr (), s\<lparr>envelopes := envelopes s @ [msg], sent := sent s @ [d]\<rparr>)
          \<and> py_get msg ''type'' = Inr (JStr ''Update'') \<and> dl_body d = msg"
proof -
  obtain obj where a: "as_json sample_env base_url n s = (Inr obj, s)"
    using as_json_alice [OF n s(1)] by blast
  let ?msg = "JObj [(''@context'', JArr [JStr ''https://www.w3.org/ns/activitystreams'']),
                    (''type'', JStr ''Update''),
                    (''id'', JStr (no_content_url n @ ''#updates/'' @ timestamp sample_env (no_updated_at n))),
                    (''actor'', JStr (base_url @ ''/pub/alice'')),
                    (''object'', obj),
                    (''published'', JStr (format_datetime sample_env (no_published_at n)))]"
  let ?d = "\<lparr>dl_url = JStr ''https://b.example/users/bob/inbox'', dl_private_key = ''KEY-A'',
             dl_public_key_url = (base_url @ ''/pub/alice'') @ ''#main-key'', dl_body = ?msg\<rparr>"
  have eq: "send_update_note_to_followers sample_env base_url n s
     = (Inr (), s\<lparr>envelopes := envelopes s @ [?msg], sent := sent s @ [?d]\<rparr>)"
    unfolding send_update_note_to_followers_def
    by (rule send_to_alice_followers [OF n(1) s]) (simp add: a)
  show ?thesis
    unfolding eq by (intro exI [of _ ?msg] exI [of _ ?d]) (simp add: py_get_def)
qed

lemma send_create_sample:
  assumes n: "no_local_actor n = Some 1" "no_parent n = None"
      and s: "local_actors s = [alice]" "remote_actors s = [bob]" "follower_rows s = [bob_follows]"
  shows "\<exists>msg d. send_create_note_to_followers sample_env base_url n s
            = (Inr (), s\<lparr>envelopes := envelopes s @ [msg], sent := sent s @ [d]\<rparr>)
          \<and> py_get msg ''type'' = Inr (JStr ''Create'') \<and> dl_body d = msg"
proof -
  obtain obj where a: "as_json sample_env base_url n s = (Inr obj, s)"
    using as_json_alice [OF n s(1)] by blast
  let ?msg = "JObj [(''@context'', JArr [JStr ''https://www.w3.org/ns/activitystreams'',
                                        JStr ''https://w3id.org/security/v1'']),
                    (''type'', JStr ''Create''),
                    (''id'', JStr (base_url @ ''/'' @ uuid4 sample_env)),
                    (''actor'', JStr (base_url @ ''/pub/alice'')),
                    (''object'', obj)]"
  let ?d = "\<lparr>dl_url = JStr ''https://b.example/users/bob/inbox'', dl_private_key = ''KEY-A'',
             dl_public_key_url = (base_url @ ''/pub/alice'') @ ''#main-key'', dl_body = ?msg\<rparr>"
  have eq: "send_create_note_to_followers sample_env base_url n s
     = (Inr (), s\<lparr>envelopes := envelopes s @ [?msg], sent := sent s @ [?d]\<rparr>)"
    unfolding send_create_note_to_followers_def
    by (rule send_to_alice_followers [OF n(1) s]) (simp add: a)
  show ?thesis
    unfolding eq by (intro exI [of _ ?msg] exI [of _ ?d]) (simp add: py_get_def)
qed

theorem upsert_twice_witness:
  "note_keys followed_store
   \<and> la_id alice \<in> la_id ` set (local_actors followed_store)
   \<and> map no_content
         (note_rows (snd (upsert sample_env ''https://local.example'' alice ''b''
                            ''https://local.example/notes/7''
                            (snd (upsert sample_env ''https://local.example'' alice ''a''
                                    ''https://local.example/notes/7'' followed_store))))) = [''b'']
   \<and> map no_content_url
         (note_rows (snd (upsert sample_env ''https://local.example'' alice ''b''
                            ''https://local.example/notes/7''
                            (snd (upsert sample_env ''https://local.example'' alice ''a''
                                    ''https://local.example/notes/7'' followed_store)))))
       = [''https://local.example/notes/7'']
   \<and> map (\<lambda>m. py_get m ''type'')
         (envelopes (snd (upsert sample_env ''https://local.example'' alice ''b''
                            ''https://local.example/notes/7''
                            (snd (upsert sample_env ''https://local.example'' alice ''a''
                                    ''https://local.example/notes/7'' followed_store)))))
       = [Inr (JStr ''Create''), Inr (JStr ''Update'')]
   \<and> map (\<lambda>d. py_get (dl_body d) ''type'')
         (sent (snd (upsert sample_env ''https://local.example'' alice ''b''
                       ''https://local.example/notes/7''
                       (snd (upsert sample_env ''https://local.example'' alice ''a''
                               ''https://local.example/notes/7'' followed_store)))))
       = [Inr (JStr ''Create''), Inr (JStr ''Update'')]"
proof -
  define B where "B = ''https://local.example''"
  define U where "U = ''https://local.example/notes/7''"
  define na where "na = \<lparr>no_id = 4, no_local_actor = Some 1, no_remote_actor = None,
      no_published_at = 100, no_updated_at = 100, no_content = ''a'', no_content_url = U,
      no_parent = None, no_likes = [], no_announces = []\<rparr>"
  define s0 where "s0 = followed_store\<lparr>note_rows := note_rows followed_store @ [na],
      next_id := Suc (next_id followed_store)\<rparr>"
  have keys: "note_keys followed_store" by (simp add: note_keys_def followed_store_simps)
  have stored: "la_id alice \<in> la_id ` set (local_actors followed_store)"
    by (simp add: followed_store_simps)
  have one: "length (filter (\<lambda>n. no_content_url n = U) (note_rows followed_store)) \<le> 1"
    by (simp add: followed_store_simps)
  obtain m1 d1 where c: "send_create_note_to_followers sample_env B na s0
        = (Inr (), s0\<lparr>envelopes := envelopes s0 @ [m1], sent := sent s0 @ [d1]\<rparr>)"
      and m1: "py_get m1 ''type'' = Inr (JStr ''Create'')" and d1: "dl_body d1 = m1"
    using send_create_sample [of na s0 B] by (auto simp add: na_def s0_def followed_store_simps)
  define s1 where "s1 = s0\<lparr>envelopes := envelopes s0 @ [m1], sent := sent s0 @ [d1]\<rparr>"
  have first: "upsert sample_env B alice ''a'' U followed_store = (Inr na, s1)"
    using c
    by (simp add: upsert_def get_row_def followed_store_simps upsert_create_def alice_simps
        sample_env_simps Let_def na_def s0_def s1_def)
  define nb where "nb = na\<lparr>no_updated_at := timezone_now sample_env, no_content := ''b''\<rparr>"
  have rows1: "note_rows s1 = [na]" "local_actors s1 = [alice]" "remote_actors s1 = [bob]"
    "follower_rows s1 = [bob_follows]" "envelopes s1 = [m1]" "sent s1 = [d1]"
    by (simp_all add: s1_def s0_def followed_store_simps)
  obtain m2 d2 where u: "send_update_note_to_followers sample_env B nb (update_note nb s1)
        = (Inr (), (update_note nb s1)\<lparr>envelopes := envelopes (update_note nb s1) @ [m2],
                                          sent := sent (update_note nb s1) @ [d2]\<rparr>)"
      and m2: "py_get m2 ''type'' = Inr (JStr ''Update'')" and d2: "dl_body d2 = m2"
    using send_update_sample [of nb "update_note nb s1" B]
    by (auto simp add: nb_def na_def update_note_def rows1)
  have second: "upsert sample_env B alice ''b'' U s1
      = (Inr nb, (update_note nb s1)\<lparr>envelopes := envelopes (update_note nb s1) @ [m2],
                                        sent := sent (update_note nb s1) @ [d2]\<rparr>)"
    using u
    by (simp add: upsert_def rows1 get_row_def Let_def nb_def [symmetric]) (simp add: na_def)
  note t = upsert_twice [OF keys stored one first second]
  have res: "map no_content (note_rows (snd (upsert sample_env B alice ''b'' U s1))) = [''b'']"
    "map no_content_url (note_rows (snd (upsert sample_env B alice ''b'' U s1))) = [U]"
    "map (\<lambda>m. py_get m ''type'') (envelopes (snd (upsert sample_env B alice ''b'' U s1)))
       = [Inr (JStr ''Create''), Inr (JStr ''Update'')]"
    "map (\<lambda>d. py_get (dl_body d) ''type'') (sent (snd (upsert sample_env B alice ''b'' U s1)))
       = [Inr (JStr ''Create''), Inr (JStr ''Update'')]"
    using t by (simp_all add: second update_note_def rows1 nb_def na_def m1 m2 d1 d2)
  have s1_eq: "s1 = snd (upsert sample_env B alice ''a'' U followed_store)" using first by simp
  show ?thesis
    using keys stored res unfolding s1_eq B_def U_def by (intro conjI)
qed

section \<open>Follower edges\<close>












lemma unique_followers_cong:
  "follower_rows s' = follower_rows s \<Longrightarrow> unique_followers s' = unique_followers s"
  by (simp add: unique_followers_def)





















end
